theory Spec2Isabelle
  imports Main
begin

section \<open>Values, strings and errors\<close>

text \<open>
  The scenario creation routes of the road accessibility backend
  (\<^verbatim>\<open>app/routes/scenarios--create.js\<close>, and the older copy of the same route that
  is stored in \<^verbatim>\<open>app/config/offline.js\<close>) are embedded as functions on an explicit
  \<open>world\<close>: the database tables the routes read and write, the object store, the local
  temporary files and the service runners that have been started.

  JavaScript values that end up in JSON payloads are \<open>jsval\<close>; an object literal is an
  association list in insertion order, and \<open>assign\<close> is \<^verbatim>\<open>Object.assign\<close>.
\<close>

datatype jsval = JUndefined | JNum int | JStr string | JList "jsval list"

type_synonym obj = "(string \<times> jsval) list"

fun obj_set :: "obj \<Rightarrow> string \<Rightarrow> jsval \<Rightarrow> obj" where
  "obj_set [] k v = [(k, v)]"
| "obj_set ((k', v') # kvs) k v =
     (if k' = k then (k, v) # kvs else (k', v') # obj_set kvs k v)"

definition assign :: "obj \<Rightarrow> obj \<Rightarrow> obj" where
  "assign target source = foldl (\<lambda>t (k, v). obj_set t k v) target source"

definition num_or_undefined :: "int option \<Rightarrow> jsval" where
  "num_or_undefined v = (case v of None \<Rightarrow> JUndefined | Some n \<Rightarrow> JNum n)"

definition str_or_undefined :: "string option \<Rightarrow> jsval" where
  "str_or_undefined v = (case v of None \<Rightarrow> JUndefined | Some s \<Rightarrow> JStr s)"

text \<open>
  \<^verbatim>\<open>str.match(/literal/)\<close> with a pattern without metacharacters is truthy exactly when
  the literal occurs somewhere in the string.
\<close>

fun js_match :: "string \<Rightarrow> string \<Rightarrow> bool" where
  "js_match pat [] = (pat = [])"
| "js_match pat (c # cs) = (take (length pat) (c # cs) = pat \<or> js_match pat cs)"

text \<open>
  Template literals print a number in decimal. Identifiers and counters are integers
  (no fraction, no exponent notation), so \<open>show_int\<close> is the whole of the conversion
  the routes use.
\<close>

definition digit :: "nat \<Rightarrow> char" where
  "digit d = ''0123456789'' ! d"

function show_nat :: "nat \<Rightarrow> string" where
  "show_nat n = (if n < 10 then [digit n] else show_nat (n div 10) @ [digit (n mod 10)])"
  by pat_completeness auto
termination
  by (relation "measure id") auto

declare show_nat.simps [simp del]

definition show_int :: "int \<Rightarrow> string" where
  "show_int i = (if i < 0 then CHR ''-'' # show_nat (nat (- i)) else show_nat (nat i))"

text \<open>
  An error object: its class, its \<^verbatim>\<open>message\<close> and the \<^verbatim>\<open>constraint\<close> property that the
  database driver sets on a constraint violation. The error classes come from
  \<^verbatim>\<open>utils/errors\<close>, which is not among the sources: an error built without a message
  argument (\<^verbatim>\<open>new ProjectNotFoundError()\<close>) carries the default text of its class, and
  that text is the parameter \<open>dm\<close> of every function that builds such an error.
\<close>

datatype error_class =
    ProjectNotFoundError | ScenarioNotFoundError | DataConflictError | DataValidationError
  | NotFoundError | TypeError | StorageError

datatype error =
  Error (err_class: error_class) (err_message: string) (err_constraint: "string option")

type_synonym default_messages = "error_class \<Rightarrow> string"

section \<open>The world the routes act on\<close>

record project_row =
  proj_id :: int
  proj_status :: string

record scenario_row =
  sc_id :: int
  sc_name :: string
  sc_description :: string
  sc_status :: string
  sc_master :: bool
  sc_project_id :: int
  sc_created_at :: int
  sc_updated_at :: int

record setting_row =
  set_scenario_id :: int
  set_key :: string
  set_value :: jsval
  set_created_at :: int
  set_updated_at :: int

record operation_row =
  opr_id :: int
  opr_type :: string
  opr_project_id :: int
  opr_scenario_id :: int

text \<open>
  A log entry of an operation. The tables keep their rows in insertion order, which is
  the order of \<^verbatim>\<open>created_at\<close>. \<open>log_finish\<close> marks the entry that \<^verbatim>\<open>finish\<close> writes.
\<close>

record log_entry =
  log_operation_id :: int
  log_event :: string
  log_data :: obj
  log_finish :: bool

text \<open>
  A service runner that has been constructed and started and has not yet signalled
  \<^verbatim>\<open>complete\<close>: its task name, its payload, and the operation id that the completion
  handler registered on it has captured.
\<close>

record service =
  srv_task :: string
  srv_data :: obj
  srv_op_id :: int

text \<open>
  A pending \<^verbatim>\<open>listenForFile(filePath)\<close> of the older route, with the arguments its
  continuation passes to \<^verbatim>\<open>createScenario\<close>.
\<close>

record upload_listener =
  ul_path :: string
  ul_project_id :: int
  ul_scenario_id :: int
  ul_op_id :: int
  ul_source :: string
  ul_file_name :: string

text \<open>
  \<open>scenarios_insert_fault\<close> and \<open>operations_load_fault\<close> stand for what the routes cannot
  decide: a failure of the storage layer (a lost connection, a missing relation, another
  constraint) that makes the insert into \<^verbatim>\<open>scenarios\<close>, or the query of
  \<^verbatim>\<open>loadByData\<close>, reject with the given error.
\<close>

record world =
  projects :: "project_row list"
  scenarios :: "scenario_row list"
  scenarios_settings :: "setting_row list"
  operations :: "operation_row list"
  operations_logs :: "log_entry list"
  scenario_seq :: int
  operation_seq :: int
  DS_ENV :: "string option"
  services :: "service list"
  s3_objects :: "(string \<times> string) list"
  removed_local_files :: "string list"
  closed_databases :: "(int \<times> jsval) list"
  upload_listeners :: "upload_listener list"
  scenarios_insert_fault :: "error option"
  operations_load_fault :: "error option"

section \<open>Operation\<close>

text \<open>
  Modelled from the spec: the class \<^verbatim>\<open>Operation\<close> of \<^verbatim>\<open>utils/operation\<close> is not among the
  sources. The definitions of this section follow sections 3 and 4.1 of the
  specification. An operation handle is the identity row together with the log entries
  of the operation as they were when the handle was loaded or last written through; the
  status is derived from those entries.
\<close>

record operation =
  op_id :: int
  op_type :: string
  op_project_id :: int
  op_scenario_id :: int
  op_entries :: "log_entry list"

text \<open>
  Modelled from the spec: a terminal event is the entry written by \<^verbatim>\<open>finish\<close>
  (finish-equivalent) or an entry tagged \<^verbatim>\<open>error\<close>.
\<close>

definition is_terminal :: "log_entry \<Rightarrow> bool" where
  "is_terminal e = (log_finish e \<or> log_event e = ''error'')"

text \<open>
  Modelled from the spec: \<^verbatim>\<open>isCompleted()\<close> is true if a terminal event (success or
  error) has been logged.
\<close>

definition isCompleted :: "operation \<Rightarrow> bool" where
  "isCompleted op = list_ex is_terminal (op_entries op)"

text \<open>
  Modelled from the spec: \<^verbatim>\<open>isStarted()\<close> is true if the loaded operation's log contains
  a start event and no terminal event yet.
\<close>

definition isStarted :: "operation \<Rightarrow> bool" where
  "isStarted op =
     (list_ex (\<lambda>e. log_event e = ''start'') (op_entries op) \<and> \<not> isCompleted op)"

text \<open>
  Modelled from the spec: \<^verbatim>\<open>getId()\<close> returns the operation's identity for handing to a
  service runner.
\<close>

definition getId :: "operation \<Rightarrow> int" where
  "getId op = op_id op"

text \<open>
  Modelled from the spec: the log of an operation is the entries that carry its id,
  ordered by creation time.
\<close>

definition entries_of :: "world \<Rightarrow> int \<Rightarrow> log_entry list" where
  "entries_of w i = filter (\<lambda>e. log_operation_id e = i) (operations_logs w)"

text \<open>
  Modelled from the spec: loading an operation gives the handle its identity and its
  log, from which the status is derived.
\<close>

definition load_row :: "world \<Rightarrow> operation_row \<Rightarrow> operation" where
  "load_row w r =
     \<lparr>op_id = opr_id r, op_type = opr_type r, op_project_id = opr_project_id r,
      op_scenario_id = opr_scenario_id r, op_entries = entries_of w (opr_id r)\<rparr>"

text \<open>
  Modelled from the spec: \<^verbatim>\<open>loadByData\<close> finds the most recent operation matching the
  triple and fails with a \<^verbatim>\<open>NotFoundError\<close> if none exists. The text of the error is
  not given by the specification: it is \<open>dm NotFoundError\<close>.
\<close>

definition loadByData ::
  "default_messages \<Rightarrow> world \<Rightarrow> string \<Rightarrow> int \<Rightarrow> int \<Rightarrow> error + operation" where
  "loadByData dm w t projId scId =
     (case find (\<lambda>r. opr_type r = t \<and> opr_project_id r = projId \<and> opr_scenario_id r = scId)
             (rev (operations w)) of
        None \<Rightarrow> Inl (Error NotFoundError (dm NotFoundError) None)
      | Some r \<Rightarrow> Inr (load_row w r))"

text \<open>
  Modelled from the spec: \<^verbatim>\<open>loadById\<close> fetches an operation by identity and fails with
  a \<^verbatim>\<open>NotFoundError\<close> if it is absent.
\<close>

definition loadById :: "default_messages \<Rightarrow> world \<Rightarrow> int \<Rightarrow> error + operation" where
  "loadById dm w i =
     (case find (\<lambda>r. opr_id r = i) (operations w) of
        None \<Rightarrow> Inl (Error NotFoundError (dm NotFoundError) None)
      | Some r \<Rightarrow> Inr (load_row w r))"

text \<open>
  Modelled from the spec: the entries of an operation are append-only; a new entry goes
  to the end of the table, and the handle that wrote it sees it.
\<close>

definition append_entry :: "operation \<Rightarrow> log_entry \<Rightarrow> world \<Rightarrow> operation \<times> world" where
  "append_entry op e w =
     (op\<lparr>op_entries := op_entries op @ [e]\<rparr>,
      w\<lparr>operations_logs := operations_logs w @ [e]\<rparr>)"

text \<open>
  Modelled from the spec: \<^verbatim>\<open>log(event, data)\<close> appends a log entry to the loaded
  operation and returns the operation.
\<close>

definition log :: "operation \<Rightarrow> string \<Rightarrow> obj \<Rightarrow> world \<Rightarrow> operation \<times> world" where
  "log op event d w =
     append_entry op
       \<lparr>log_operation_id = op_id op, log_event = event, log_data = d, log_finish = False\<rparr> w"

text \<open>
  Modelled from the spec: \<^verbatim>\<open>start(type, projectId, scenarioId)\<close> creates a new persisted
  identity (the id is generated by the store) plus a \<^verbatim>\<open>start\<close> log entry.
\<close>

definition start :: "string \<Rightarrow> int \<Rightarrow> int \<Rightarrow> world \<Rightarrow> operation \<times> world" where
  "start t projId scId w =
     (let i = operation_seq w;
          e = \<lparr>log_operation_id = i, log_event = ''start'', log_data = [], log_finish = False\<rparr>
      in (\<lparr>op_id = i, op_type = t, op_project_id = projId, op_scenario_id = scId,
           op_entries = [e]\<rparr>,
          w\<lparr>operations := operations w @
                [\<lparr>opr_id = i, opr_type = t, opr_project_id = projId, opr_scenario_id = scId\<rparr>],
            operations_logs := operations_logs w @ [e],
            operation_seq := i + 1\<rparr>))"

text \<open>
  Modelled from the spec: \<^verbatim>\<open>finish\<close> appends the terminal entry. The current route calls
  \<^verbatim>\<open>finish('error', data)\<close>, the older one \<^verbatim>\<open>finish()\<close> without arguments.
\<close>

definition finish :: "operation \<Rightarrow> (string \<times> obj) option \<Rightarrow> world \<Rightarrow> operation \<times> world" where
  "finish op arg w =
     (let (event, d) = (case arg of None \<Rightarrow> (''finish'', []) | Some a \<Rightarrow> a)
      in append_entry op
           \<lparr>log_operation_id = op_id op, log_event = event, log_data = d, log_finish = True\<rparr> w)"

section \<open>Starting the operation and dispatching the job\<close>

text \<open>
  \<^verbatim>\<open>startOperation\<close> is the same text in both files. The second callback of
  \<^verbatim>\<open>.then(ok, err)\<close> sees a rejection of the load only, not the conflict thrown by the
  first callback.
\<close>

definition load_for_start :: "default_messages \<Rightarrow> int \<Rightarrow> int \<Rightarrow> world \<Rightarrow> error + operation" where
  "load_for_start dm projId scId w =
     (case operations_load_fault w of
        Some err \<Rightarrow> Inl err
      | None \<Rightarrow> loadByData dm w ''scenario-create'' projId scId)"

definition startOperation ::
  "default_messages \<Rightarrow> int \<Rightarrow> int \<Rightarrow> world \<Rightarrow> (error + operation) \<times> world" where
  "startOperation dm projId scId w =
     (case (case load_for_start dm projId scId w of
              Inr op \<Rightarrow>
                if isStarted op
                then Inl (Error DataConflictError ''Scenario creation already in progress'' None)
                else Inr ()
            | Inl err \<Rightarrow>
                if js_match ''not exist'' (err_message err) then Inr () else Inl err) of
        Inl err \<Rightarrow> (Inl err, w)
      | Inr _ \<Rightarrow>
          (let (op, w1) = start ''scenario-create'' projId scId w;
               (op2, w2) = log op ''start'' [(''message'', JStr ''Operation started'')] w1
           in (Inr op2, w2)))"

text \<open>
  \<^verbatim>\<open>createScenario\<close> of \<^verbatim>\<open>scenarios--create.js\<close>. In test mode it returns at once.
  Otherwise the service runner is constructed with the merged payload, the completion
  handler is registered and the runner is started; the function returns without waiting
  for the completion signal, which is the later step \<open>on_complete\<close>.
\<close>

definition createScenario :: "int \<Rightarrow> int \<Rightarrow> int \<Rightarrow> obj \<Rightarrow> world \<Rightarrow> world" where
  "createScenario projId scId opId d w =
     (if DS_ENV w = Some ''test'' then w
      else w\<lparr>services := services w @
             [\<lparr>srv_task = ''scenario-create'',
               srv_data = assign (assign []
                  [(''projId'', JNum projId), (''scId'', JNum scId), (''opId'', JNum opId)]) d,
               srv_op_id = opId\<rparr>]\<rparr>)"

text \<open>
  The handler of \<^verbatim>\<open>complete\<close> registered in \<^verbatim>\<open>scenarios--create.js\<close>: on an error the
  operation is loaded again by id and, when it is not completed, finished with an
  \<^verbatim>\<open>error\<close> entry. A failed reload rejects a promise nobody handles.
\<close>

definition on_complete :: "default_messages \<Rightarrow> int \<Rightarrow> error option \<Rightarrow> world \<Rightarrow> world" where
  "on_complete dm opId err w =
     (case err of
        None \<Rightarrow> w
      | Some e \<Rightarrow>
          (case loadById dm w opId of
             Inl _ \<Rightarrow> w
           | Inr op \<Rightarrow>
               if \<not> isCompleted op
               then snd (finish op (Some (''error'', [(''error'', JStr (err_message e))])) w)
               else w))"

text \<open>
  The older \<^verbatim>\<open>createScenario\<close> kept in \<^verbatim>\<open>offline.js\<close>: it takes the source as an argument,
  closes the database of the cloned scenario first, and its completion handler logs the
  \<^verbatim>\<open>error\<close> entry and then calls \<^verbatim>\<open>finish()\<close>.
\<close>

definition obj_get :: "obj \<Rightarrow> string \<Rightarrow> jsval" where
  "obj_get d k = (case map_of d k of None \<Rightarrow> JUndefined | Some v \<Rightarrow> v)"

definition createScenario_offline ::
  "int \<Rightarrow> int \<Rightarrow> int \<Rightarrow> string \<Rightarrow> obj \<Rightarrow> world \<Rightarrow> world" where
  "createScenario_offline projId scId opId source d w =
     (if DS_ENV w = Some ''test'' then w
      else
        (let w1 = (if source = ''clone''
                   then w\<lparr>closed_databases :=
                            closed_databases w @ [(projId, obj_get d ''sourceScenarioId'')]\<rparr>
                   else w)
         in w1\<lparr>services := services w1 @
              [\<lparr>srv_task = ''scenario-create'',
                srv_data = assign (assign []
                  [(''projId'', JNum projId), (''scId'', JNum scId), (''opId'', JNum opId),
                   (''source'', JStr source)]) d,
                srv_op_id = opId\<rparr>]\<rparr>))"

definition on_complete_offline ::
  "default_messages \<Rightarrow> int \<Rightarrow> error option \<Rightarrow> world \<Rightarrow> world" where
  "on_complete_offline dm opId err w =
     (case err of
        None \<Rightarrow> w
      | Some e \<Rightarrow>
          (case loadById dm w opId of
             Inl _ \<Rightarrow> w
           | Inr op \<Rightarrow>
               if \<not> isCompleted op
               then (let (op1, w1) = log op ''error'' [(''error'', JStr (err_message e))] w
                     in snd (finish op1 None w1))
               else w))"

section \<open>The create handler of \<^verbatim>\<open>scenarios--create.js\<close>\<close>

text \<open>
  The payload after form parsing: a field the form did not carry is \<open>None\<close>
  (\<^verbatim>\<open>undefined\<close>). The uploaded file is represented by its local path.
\<close>

record payload =
  pl_name :: string
  pl_description :: "string option"
  pl_roadNetworkSource :: string
  pl_roadNetworkSourceScenario :: "int option"
  pl_roadNetworkSourceWbCatalogOption :: "string option"
  pl_roadNetworkFile :: "string option"
  pl_poiSource :: string
  pl_poiSourceScenario :: "int option"

text \<open>
  The scenario object that travels through the promise chain: the inserted row, and the
  properties the handlers attach to it. \<open>so_roadNetworkUpload\<close> is the older route's
  \<^verbatim>\<open>{fileName, presignedUrl}\<close>, the url being represented by the path it is signed for.
\<close>

record scenario_obj =
  so_row :: scenario_row
  so_data :: "obj option"
  so_admin_areas :: "jsval list option"
  so_roadNetworkUpload :: "(string \<times> string) option"

text \<open>
  What \<^verbatim>\<open>reply\<close> is called with. \<open>BoomForError err\<close> is \<^verbatim>\<open>getBoomResponseForError(err)\<close>,
  a function of \<^verbatim>\<open>utils/errors\<close> that is kept symbolic. \<open>NoReply\<close> is a chain that ends
  without calling \<^verbatim>\<open>reply\<close>.
\<close>

datatype reply =
    ReplyScenario scenario_obj
  | BoomBadRequest string
  | BoomNotFound string
  | BoomConflict string
  | BoomBadImplementation error
  | BoomForError error
  | NoReply

definition check_project :: "default_messages \<Rightarrow> int \<Rightarrow> world \<Rightarrow> error + unit" where
  "check_project dm projId w =
     (case filter (\<lambda>p. proj_id p = projId) (projects w) of
        [] \<Rightarrow> Inl (Error ProjectNotFoundError (dm ProjectNotFoundError) None)
      | p # _ \<Rightarrow>
          if proj_status p = ''pending''
          then Inl (Error DataConflictError ''Project setup not completed'' None)
          else Inr ())"

text \<open>
  The lookup of the scenario to clone from. An \<^verbatim>\<open>undefined\<close> id matches no row. The error
  to throw differs between the two files and is an argument.
\<close>

definition check_clone_source ::
  "error \<Rightarrow> int \<Rightarrow> string \<Rightarrow> int option \<Rightarrow> world \<Rightarrow> error + unit" where
  "check_clone_source not_found projId rnSource rnSourceScenarioId w =
     (if rnSource = ''clone''
      then (case filter (\<lambda>s. Some (sc_id s) = rnSourceScenarioId \<and> sc_project_id s = projId)
                   (scenarios w) of
              [] \<Rightarrow> Inl not_found
            | _ \<Rightarrow> Inr ())
      else Inr ())"

text \<open>
  The insert into \<^verbatim>\<open>scenarios\<close> with \<^verbatim>\<open>returning('*')\<close>. The id comes from the table's
  sequence (the \<open>sc_id\<close> of the argument is not read). The table carries the constraint
  the handler names, \<^verbatim>\<open>scenarios_project_id_name_unique\<close>: a second row with the same
  project and name is rejected with an error whose \<^verbatim>\<open>constraint\<close> is that name.
\<close>

definition insert_scenario :: "scenario_row \<Rightarrow> world \<Rightarrow> error + (scenario_row \<times> world)" where
  "insert_scenario info w =
     (case scenarios_insert_fault w of
        Some err \<Rightarrow> Inl err
      | None \<Rightarrow>
          if list_ex (\<lambda>r. sc_project_id r = sc_project_id info \<and> sc_name r = sc_name info)
               (scenarios w)
          then Inl (Error StorageError
                      ''duplicate key value violates unique constraint''
                      (Some ''scenarios_project_id_name_unique''))
          else (let row = info\<lparr>sc_id := scenario_seq w\<rparr>
                in Inr (row, w\<lparr>scenarios := scenarios w @ [row],
                              scenario_seq := scenario_seq w + 1\<rparr>)))"

definition scenario_info :: "int \<Rightarrow> payload \<Rightarrow> int \<Rightarrow> scenario_row" where
  "scenario_info projId pl now =
     \<lparr>sc_id = 0, sc_name = pl_name pl,
      sc_description = (case pl_description pl of None \<Rightarrow> [] | Some d \<Rightarrow> d),
      sc_status = ''pending'', sc_master = False, sc_project_id = projId,
      sc_created_at = now, sc_updated_at = now\<rparr>"

definition insert_catch :: "string \<Rightarrow> error \<Rightarrow> error" where
  "insert_catch name err =
     (if err_constraint err = Some ''scenarios_project_id_name_unique''
      then Error DataConflictError (''Scenario name already in use for this project: '' @ name) None
      else err)"

definition initial_settings :: "int \<Rightarrow> int \<Rightarrow> setting_row list" where
  "initial_settings scId now =
     [\<lparr>set_scenario_id = scId, set_key = ''res_gen_at'', set_value = JNum 0,
       set_created_at = now, set_updated_at = now\<rparr>,
      \<lparr>set_scenario_id = scId, set_key = ''rn_updated_at'', set_value = JNum 0,
       set_created_at = now, set_updated_at = now\<rparr>,
      \<lparr>set_scenario_id = scId, set_key = ''admin_areas'', set_value = JStr ''[]'',
       set_created_at = now, set_updated_at = now\<rparr>]"

text \<open>Lines 45 to 101: the scenario base, its settings, and the object handed on.\<close>

definition create_scenario_base ::
  "int \<Rightarrow> payload \<Rightarrow> int \<Rightarrow> world \<Rightarrow> (error + scenario_obj) \<times> world" where
  "create_scenario_base projId pl now w =
     (case insert_scenario (scenario_info projId pl now) w of
        Inl err \<Rightarrow> (Inl (insert_catch (pl_name pl) err), w)
      | Inr (scenario, w1) \<Rightarrow>
          (Inr \<lparr>so_row = scenario,
                so_data = Some [(''res_gen_at'', JNum 0), (''rn_updated_at'', JNum 0)],
                so_admin_areas = Some [],
                so_roadNetworkUpload = None\<rparr>,
           w1\<lparr>scenarios_settings :=
                 scenarios_settings w1 @ initial_settings (sc_id scenario) now\<rparr>))"

text \<open>
  \<^verbatim>\<open>handleRoadNetworkUpload\<close>: the file goes to the object store under
  \<^verbatim>\<open>scenario-<id>/road-network_<time>\<close> and the local copy is removed. Reading
  \<^verbatim>\<open>.path\<close> of a file that is \<^verbatim>\<open>undefined\<close> throws a \<^verbatim>\<open>TypeError\<close>.
\<close>

definition handleRoadNetworkUpload ::
  "scenario_obj \<Rightarrow> string option \<Rightarrow> int \<Rightarrow> world \<Rightarrow> (error + obj) \<times> world" where
  "handleRoadNetworkUpload scenario roadNetworkFile upload_now w =
     (let fileName = ''road-network_'' @ show_int upload_now;
          filePath = ''scenario-'' @ show_int (sc_id (so_row scenario)) @ ''/'' @ fileName
      in case roadNetworkFile of
           None \<Rightarrow> (Inl (Error TypeError ''Cannot read property path of undefined'' None), w)
         | Some path \<Rightarrow>
             (Inr [(''roadNetworkFile'', JStr fileName)],
              w\<lparr>s3_objects := s3_objects w @ [(filePath, path)],
                removed_local_files := removed_local_files w @ [path]\<rparr>))"

text \<open>Lines 108 to 130: the data object of the job.\<close>

definition job_data ::
  "payload \<Rightarrow> scenario_obj \<Rightarrow> int \<Rightarrow> world \<Rightarrow> (error + obj) \<times> world" where
  "job_data pl scenario upload_now w =
     (let d0 = [(''rnSource'', JStr (pl_roadNetworkSource pl)),
                (''poiSource'', JStr (pl_poiSource pl))];
          (r, w1) =
            (if pl_roadNetworkSource pl = ''new''
             then (case handleRoadNetworkUpload scenario (pl_roadNetworkFile pl) upload_now w of
                     (Inl err, w') \<Rightarrow> (Inl err, w')
                   | (Inr res, w') \<Rightarrow> (Inr (assign (assign [] d0) res), w'))
             else if pl_roadNetworkSource pl = ''clone''
             then (Inr (assign (assign [] d0)
                     [(''rnSourceScenarioId'', num_or_undefined (pl_roadNetworkSourceScenario pl))]), w)
             else if pl_roadNetworkSource pl = ''wbcatalog''
             then (Inr (assign (assign [] d0)
                     [(''rnSourceWbCatalogOption'',
                       str_or_undefined (pl_roadNetworkSourceWbCatalogOption pl))]), w)
             else (Inr d0, w))
      in case r of
           Inl err \<Rightarrow> (Inl err, w1)
         | Inr d \<Rightarrow>
             (if pl_poiSource pl = ''clone''
              then (Inr (assign (assign [] d)
                      [(''poiSourceScenarioId'', num_or_undefined (pl_poiSourceScenario pl))]), w1)
              else (Inr d, w1)))"

text \<open>
  The promise chain of \<^verbatim>\<open>handler\<close> up to the value that is replied (lines 25 to 133).
  A rejection leaves the chain with the world as it is at that point: nothing is rolled
  back.
\<close>

definition handler_body ::
  "default_messages \<Rightarrow> int \<Rightarrow> payload \<Rightarrow> int \<Rightarrow> int \<Rightarrow> world \<Rightarrow> (error + scenario_obj) \<times> world" where
  "handler_body dm projId pl now upload_now w =
     (case check_project dm projId w of
        Inl err \<Rightarrow> (Inl err, w)
      | Inr _ \<Rightarrow>
     (case check_clone_source
             (Error ScenarioNotFoundError ''Source scenario for cloning not found'' None)
             projId (pl_roadNetworkSource pl) (pl_roadNetworkSourceScenario pl) w of
        Inl err \<Rightarrow> (Inl err, w)
      | Inr _ \<Rightarrow>
     (case create_scenario_base projId pl now w of
        (Inl err, w1) \<Rightarrow> (Inl err, w1)
      | (Inr scenario, w1) \<Rightarrow>
     (case startOperation dm projId (sc_id (so_row scenario)) w1 of
        (Inl err, w2) \<Rightarrow> (Inl err, w2)
      | (Inr op, w2) \<Rightarrow>
     (case job_data pl scenario upload_now w2 of
        (Inl err, w3) \<Rightarrow> (Inl err, w3)
      | (Inr d, w3) \<Rightarrow>
          (Inr scenario,
           createScenario projId (sc_id (so_row scenario)) (getId op) d w3))))))"

text \<open>
  The end of the chain (lines 134 to 149): the reply, and the three \<^verbatim>\<open>catch\<close> handlers.
\<close>

definition handler ::
  "default_messages \<Rightarrow> int \<Rightarrow> payload \<Rightarrow> int \<Rightarrow> int \<Rightarrow> world \<Rightarrow> reply \<times> world" where
  "handler dm projId pl now upload_now w =
     (case handler_body dm projId pl now upload_now w of
        (Inr scenario, w') \<Rightarrow> (ReplyScenario scenario, w')
      | (Inl err, w') \<Rightarrow>
          (let w'' = (case pl_roadNetworkFile pl of
                        None \<Rightarrow> w'
                      | Some path \<Rightarrow> w'\<lparr>removed_local_files := removed_local_files w' @ [path]\<rparr>)
           in (if js_match ''Source scenario for cloning not found'' (err_message err)
               then BoomBadRequest (err_message err)
               else BoomForError err, w'')))"

section \<open>The duplicate route\<close>

text \<open>
  \<^verbatim>\<open>findName\<close> searches for a free name by appending a \<^verbatim>\<open>(n)\<close> suffix, counting up
  from 2. The recursion ends because the decimal rendering is injective and the table is
  finite: the facts below are what the termination proof needs.
\<close>

lemma digit_inj: "a < 10 \<Longrightarrow> b < 10 \<Longrightarrow> digit a = digit b \<Longrightarrow> a = b"
proof -
  assume a: "a < 10" and b: "b < 10" and e: "digit a = digit b"
  have d: "distinct ''0123456789''" by simp
  have l: "length ''0123456789'' = 10" by simp
  from a b e d l show ?thesis
    unfolding digit_def by (metis nth_eq_iff_index_eq)
qed

lemma show_nat_length: "length (show_nat n) = (if n < 10 then 1 else Suc (length (show_nat (n div 10))))"
  by (subst show_nat.simps) simp

lemma show_nat_nonempty: "show_nat n \<noteq> []"
  by (subst show_nat.simps) simp

lemma show_nat_inj: "show_nat a = show_nat b \<Longrightarrow> a = b"
proof (induction a arbitrary: b rule: show_nat.induct)
  case (1 n)
  show ?case
  proof (cases "n < 10")
    case True
    then have sn: "show_nat n = [digit n]" by (subst show_nat.simps) simp
    show ?thesis
    proof (cases "b < 10")
      case True
      then have "show_nat b = [digit b]" by (subst show_nat.simps) simp
      with sn "1.prems" have "digit n = digit b" by simp
      with \<open>n < 10\<close> True show ?thesis by (rule digit_inj)
    next
      case False
      then have "show_nat b = show_nat (b div 10) @ [digit (b mod 10)]"
        by (subst show_nat.simps) simp
      with sn "1.prems" show_nat_nonempty [of "b div 10"] show ?thesis by simp
    qed
  next
    case False
    then have sn: "show_nat n = show_nat (n div 10) @ [digit (n mod 10)]"
      by (subst show_nat.simps) simp
    show ?thesis
    proof (cases "b < 10")
      case True
      then have "show_nat b = [digit b]" by (subst show_nat.simps) simp
      with sn "1.prems" show_nat_nonempty [of "n div 10"] show ?thesis by simp
    next
      case b: False
      then have "show_nat b = show_nat (b div 10) @ [digit (b mod 10)]"
        by (subst show_nat.simps) simp
      with sn "1.prems" have e1: "show_nat (n div 10) = show_nat (b div 10)"
        and e2: "digit (n mod 10) = digit (b mod 10)" by simp_all
      from "1.IH" [OF False e1] have q: "n div 10 = b div 10" .
      have "n mod 10 = b mod 10" by (rule digit_inj [OF _ _ e2]) simp_all
      with q show ?thesis by (metis div_mult_mod_eq)
    qed
  qed
qed

definition fmt_name :: "string \<Rightarrow> nat \<Rightarrow> string" where
  "fmt_name name no = name @ '' ('' @ show_nat no @ '')''"

lemma fmt_name_inj: "fmt_name name a = fmt_name name b \<Longrightarrow> a = b"
  by (simp add: fmt_name_def show_nat_inj)

definition name_taken :: "world \<Rightarrow> int \<Rightarrow> string \<Rightarrow> bool" where
  "name_taken w projId n =
     (find (\<lambda>s. sc_project_id s = projId \<and> sc_name s = n) (scenarios w) \<noteq> None)"

lemma finite_taken: "finite {m. name_taken w projId (fmt_name name m)}"
proof -
  have "{m. name_taken w projId (fmt_name name m)} \<subseteq> fmt_name name -` (sc_name ` set (scenarios w))"
  proof
    fix m assume "m \<in> {m. name_taken w projId (fmt_name name m)}"
    then obtain s where "s \<in> set (scenarios w)" and "sc_name s = fmt_name name m"
      by (auto simp: name_taken_def find_None_iff)
    then have "fmt_name name m \<in> sc_name ` set (scenarios w)" by (metis imageI)
    then show "m \<in> fmt_name name -` (sc_name ` set (scenarios w))" by simp
  qed
  moreover have "finite (fmt_name name -` (sc_name ` set (scenarios w)))"
    by (rule finite_vimageI) (auto simp: inj_on_def dest: fmt_name_inj)
  ultimately show ?thesis by (rule finite_subset)
qed

function findName_fn :: "world \<Rightarrow> int \<Rightarrow> string \<Rightarrow> nat \<Rightarrow> string" where
  "findName_fn w projId name no =
     (let n = fmt_name name no
      in if name_taken w projId n then findName_fn w projId name (Suc no) else n)"
  by pat_completeness auto
termination
proof (relation "measure (\<lambda>(w, projId, name, no). card {m. no \<le> m \<and> name_taken w projId (fmt_name name m)})")
  show "wf (measure (\<lambda>(w, projId, name, no). card {m. no \<le> m \<and> name_taken w projId (fmt_name name m)}))"
    by simp
next
  fix w projId name no n
  assume n: "n = fmt_name name no" and t: "name_taken w projId n"
  let ?A = "{m. Suc no \<le> m \<and> name_taken w projId (fmt_name name m)}"
  let ?B = "{m. no \<le> m \<and> name_taken w projId (fmt_name name m)}"
  have fin: "finite ?B" using finite_taken [of w projId name] by simp
  have "no \<in> ?B" and "no \<notin> ?A" using n t by simp_all
  moreover have "?A \<subseteq> ?B" by auto
  ultimately have "?A \<subset> ?B" by blast
  with fin have "card ?A < card ?B" by (rule psubset_card_mono)
  then show "((w, projId, name, Suc no), (w, projId, name, no))
    \<in> measure (\<lambda>(w, projId, name, no). card {m. no \<le> m \<and> name_taken w projId (fmt_name name m)})"
    by simp
qed

declare findName_fn.simps [simp del]

definition findName :: "world \<Rightarrow> int \<Rightarrow> string \<Rightarrow> string" where
  "findName w projId name = findName_fn w projId name 2"

text \<open>
  The handler of \<^verbatim>\<open>/projects/{projId}/scenarios/{scId}/duplicate\<close>: the source scenario
  is read, a name is found, and the create handler runs with a payload that clones both
  the road network and the points of interest from the source.
\<close>

definition duplicate_payload :: "world \<Rightarrow> int \<Rightarrow> int \<Rightarrow> scenario_row \<Rightarrow> payload" where
  "duplicate_payload w projId scId scenario =
     \<lparr>pl_name = findName w projId (sc_name scenario),
      pl_description = Some (sc_description scenario),
      pl_roadNetworkSource = ''clone'',
      pl_roadNetworkSourceScenario = Some scId,
      pl_roadNetworkSourceWbCatalogOption = None,
      pl_roadNetworkFile = None,
      pl_poiSource = ''clone'',
      pl_poiSourceScenario = Some scId\<rparr>"

definition duplicate ::
  "default_messages \<Rightarrow> int \<Rightarrow> int \<Rightarrow> int \<Rightarrow> int \<Rightarrow> world \<Rightarrow> reply \<times> world" where
  "duplicate dm projId scId now upload_now w =
     (case find (\<lambda>s. sc_id s = scId \<and> sc_project_id s = projId) (scenarios w) of
        None \<Rightarrow> (BoomForError (Error ScenarioNotFoundError (dm ScenarioNotFoundError) None), w)
      | Some scenario \<Rightarrow>
          handler dm projId (duplicate_payload w projId scId scenario) now upload_now w)"

section \<open>The older create handler kept in \<^verbatim>\<open>offline.js\<close>\<close>

text \<open>
  For a new road network the older route replies with a presigned upload url and waits
  for the file to arrive; the job is dispatched by the continuation \<open>file_uploaded\<close>.
\<close>

definition handleRoadNetworkUpload_offline ::
  "scenario_obj \<Rightarrow> int \<Rightarrow> string \<Rightarrow> int \<Rightarrow> world \<Rightarrow> reply \<times> world" where
  "handleRoadNetworkUpload_offline scenario opId source upload_now w =
     (let fileName = ''road-network_'' @ show_int upload_now;
          filePath = ''scenario-'' @ show_int (sc_id (so_row scenario)) @ ''/'' @ fileName
      in (ReplyScenario (scenario\<lparr>so_roadNetworkUpload := Some (fileName, filePath)\<rparr>),
          w\<lparr>upload_listeners := upload_listeners w @
               [\<lparr>ul_path = filePath,
                 ul_project_id = sc_project_id (so_row scenario),
                 ul_scenario_id = sc_id (so_row scenario),
                 ul_op_id = opId, ul_source = source, ul_file_name = fileName\<rparr>]\<rparr>))"


definition handler_offline_body ::
  "default_messages \<Rightarrow> int \<Rightarrow> payload \<Rightarrow> int \<Rightarrow> int \<Rightarrow> world \<Rightarrow> (error + reply) \<times> world" where
  "handler_offline_body dm projId pl now upload_now w =
     (case check_project dm projId w of
        Inl err \<Rightarrow> (Inl err, w)
      | Inr _ \<Rightarrow>
     (case check_clone_source (Error ScenarioNotFoundError (dm ScenarioNotFoundError) None)
             projId (pl_roadNetworkSource pl) (pl_roadNetworkSourceScenario pl) w of
        Inl err \<Rightarrow> (Inl err, w)
      | Inr _ \<Rightarrow>
     (case insert_scenario (scenario_info projId pl now) w of
        Inl err \<Rightarrow> (Inl (insert_catch (pl_name pl) err), w)
      | Inr (row, w1) \<Rightarrow>
     (case startOperation dm projId (sc_id row) w1 of
        (Inl err, w2) \<Rightarrow> (Inl err, w2)
      | (Inr op, w2) \<Rightarrow>
          (let scenario = \<lparr>so_row = row, so_data = None, so_admin_areas = None,
                           so_roadNetworkUpload = None\<rparr>
           in if pl_roadNetworkSource pl = ''clone''
              then (Inr (ReplyScenario scenario),
                    createScenario_offline projId (sc_id row) (getId op)
                      (pl_roadNetworkSource pl)
                      [(''sourceScenarioId'', num_or_undefined (pl_roadNetworkSourceScenario pl))]
                      w2)
              else if pl_roadNetworkSource pl = ''new''
              then (case handleRoadNetworkUpload_offline scenario (getId op)
                           (pl_roadNetworkSource pl) upload_now w2 of
                      (r, w3) \<Rightarrow> (Inr r, w3))
              else (Inr NoReply, w2))))))"

definition handler_offline ::
  "default_messages \<Rightarrow> int \<Rightarrow> payload \<Rightarrow> int \<Rightarrow> int \<Rightarrow> world \<Rightarrow> reply \<times> world" where
  "handler_offline dm projId pl now upload_now w =
     (case handler_offline_body dm projId pl now upload_now w of
        (Inr r, w') \<Rightarrow> (r, w')
      | (Inl err, w') \<Rightarrow>
          (if err_class err = ProjectNotFoundError then BoomNotFound (err_message err)
           else if err_class err = ScenarioNotFoundError
           then BoomBadRequest ''Source scenario for cloning not found''
           else if err_class err = DataConflictError then BoomConflict (err_message err)
           else BoomBadImplementation err, w'))"

section \<open>The system as a sequence of steps\<close>

text \<open>
  What can happen to a world. For the current route: a create request, a duplicate
  request, and the completion signal of a service runner that was started, which removes
  the runner from the pending ones and runs the handler registered on it. For the older
  route kept in \<^verbatim>\<open>offline.js\<close>: its create request, the arrival of an uploaded file
  that a pending listener waits for, and the completion signal with the older handler.
  Writes of the job process itself are not part of these sources.
\<close>

definition service_completes :: "default_messages \<Rightarrow> nat \<Rightarrow> error option \<Rightarrow> world \<Rightarrow> world" where
  "service_completes dm i err w =
     (if i < length (services w)
      then on_complete dm (srv_op_id (services w ! i)) err
             (w\<lparr>services := take i (services w) @ drop (Suc i) (services w)\<rparr>)
      else w)"







section \<open>Auxiliary definitions for the statements\<close>

text \<open>
  What a successful \<^verbatim>\<open>startOperation\<close> writes, spelled out: the identity row, the
  entry of \<^verbatim>\<open>start\<close> and the entry of \<^verbatim>\<open>log('start', {message: 'Operation started'})\<close>.
\<close>

definition start_entry :: "int \<Rightarrow> log_entry" where
  "start_entry i = \<lparr>log_operation_id = i, log_event = ''start'', log_data = [], log_finish = False\<rparr>"

definition started_entry :: "int \<Rightarrow> log_entry" where
  "started_entry i =
     \<lparr>log_operation_id = i, log_event = ''start'',
      log_data = [(''message'', JStr ''Operation started'')], log_finish = False\<rparr>"

definition started_world :: "int \<Rightarrow> int \<Rightarrow> world \<Rightarrow> world" where
  "started_world projId scId w =
     w\<lparr>operations := operations w @
          [\<lparr>opr_id = operation_seq w, opr_type = ''scenario-create'',
            opr_project_id = projId, opr_scenario_id = scId\<rparr>],
       operations_logs := operations_logs w @
          [start_entry (operation_seq w), started_entry (operation_seq w)],
       operation_seq := operation_seq w + 1\<rparr>"

definition started_operation :: "int \<Rightarrow> int \<Rightarrow> world \<Rightarrow> operation" where
  "started_operation projId scId w =
     \<lparr>op_id = operation_seq w, op_type = ''scenario-create'', op_project_id = projId,
      op_scenario_id = scId,
      op_entries = [start_entry (operation_seq w), started_entry (operation_seq w)]\<rparr>"

text \<open>
  The operation identifiers in the store are below the next value of the sequence that
  generates them: a fresh identifier is fresh.
\<close>

definition ids_fresh :: "world \<Rightarrow> bool" where
  "ids_fresh w =
     (list_all (\<lambda>r. opr_id r < operation_seq w) (operations w) \<and>
      list_all (\<lambda>e. log_operation_id e < operation_seq w) (operations_logs w))"

text \<open>
  Sample data for the closed instances below: a world with one active project and one
  scenario in it, and example texts for the default messages of the error classes.
\<close>

definition example_messages :: default_messages where
  "example_messages c =
     (if c = ProjectNotFoundError then ''Project not found''
      else if c = ScenarioNotFoundError then ''Scenario not found''
      else if c = NotFoundError then ''Operation does not exist''
      else ''Error'')"

definition empty_world :: world where
  "empty_world =
     \<lparr>projects = [], scenarios = [], scenarios_settings = [], operations = [],
      operations_logs = [], scenario_seq = 1, operation_seq = 1, DS_ENV = None,
      services = [], s3_objects = [], removed_local_files = [], closed_databases = [],
      upload_listeners = [], scenarios_insert_fault = None, operations_load_fault = None\<rparr>"

definition example_world :: world where
  "example_world =
     empty_world
       \<lparr>projects := [\<lparr>proj_id = 1, proj_status = ''active''\<rparr>],
        scenarios :=
          [\<lparr>sc_id = 1, sc_name = ''Main'', sc_description = ''Ref'', sc_status = ''active'',
            sc_master = True, sc_project_id = 1, sc_created_at = 0, sc_updated_at = 0\<rparr>],
        scenario_seq := 2\<rparr>"

definition example_payload :: payload where
  "example_payload =
     \<lparr>pl_name = ''Alt'', pl_description = None, pl_roadNetworkSource = ''clone'',
      pl_roadNetworkSourceScenario = Some 1, pl_roadNetworkSourceWbCatalogOption = None,
      pl_roadNetworkFile = None, pl_poiSource = ''clone'', pl_poiSourceScenario = Some 1\<rparr>"


text \<open>
  The entries the completion handlers write, and the status of an operation as a later
  reader of the store finds it.
\<close>

definition error_entry :: "int \<Rightarrow> string \<Rightarrow> bool \<Rightarrow> log_entry" where
  "error_entry i msg fin =
     \<lparr>log_operation_id = i, log_event = ''error'', log_data = [(''error'', JStr msg)],
      log_finish = fin\<rparr>"

definition finish_entry :: "int \<Rightarrow> log_entry" where
  "finish_entry i =
     \<lparr>log_operation_id = i, log_event = ''finish'', log_data = [], log_finish = True\<rparr>"

definition completed_after :: "default_messages \<Rightarrow> world \<Rightarrow> int \<Rightarrow> bool" where
  "completed_after dm w i = (case loadById dm w i of Inl _ \<Rightarrow> False | Inr op \<Rightarrow> isCompleted op)"

definition started_after :: "default_messages \<Rightarrow> world \<Rightarrow> int \<Rightarrow> bool" where
  "started_after dm w i = (case loadById dm w i of Inl _ \<Rightarrow> False | Inr op \<Rightarrow> isStarted op)"

definition faulty_world :: world where
  "faulty_world =
     example_world\<lparr>operations_load_fault :=
       Some (Error StorageError ''relation operations does not exist'' None)\<rparr>"

text \<open>
  Sample worlds in which the query of \<^verbatim>\<open>loadByData\<close> fails, a sample job error, and
  the world in which the first operation has been closed by it.
\<close>

definition broken_world :: world where
  "broken_world =
     example_world\<lparr>operations_load_fault :=
       Some (Error StorageError ''Connection terminated unexpectedly'' None)\<rparr>"

definition disk_full :: error where
  "disk_full = Error StorageError ''disk full'' None"

definition errored_world :: world where
  "errored_world =
     (started_world 1 2 example_world)
       \<lparr>operations_logs := operations_logs (started_world 1 2 example_world) @
          [error_entry 1 ''disk full'' True]\<rparr>"

definition errored_operation :: operation where
  "errored_operation =
     (started_operation 1 2 example_world)
       \<lparr>op_entries := [start_entry 1, started_entry 1, error_entry 1 ''disk full'' True]\<rparr>"

text \<open>
  The part of a world that a request for a scenario is about, the validation that both
  create handlers run first, and what the handler of \<^verbatim>\<open>scenarios--create.js\<close> writes for
  the scenario base, spelled out.
\<close>

definition footprint ::
  "world \<Rightarrow> scenario_row list \<times> setting_row list \<times> operation_row list \<times> log_entry list \<times> service list" where
  "footprint w =
     (scenarios w, scenarios_settings w, operations w, operations_logs w, services w)"

definition validated :: "default_messages \<Rightarrow> int \<Rightarrow> payload \<Rightarrow> world \<Rightarrow> bool" where
  "validated dm projId pl w =
     (check_project dm projId w = Inr () \<and>
      check_clone_source (Error ScenarioNotFoundError [] None) projId
        (pl_roadNetworkSource pl) (pl_roadNetworkSourceScenario pl) w = Inr ())"

definition new_row :: "int \<Rightarrow> payload \<Rightarrow> int \<Rightarrow> world \<Rightarrow> scenario_row" where
  "new_row projId pl now w = (scenario_info projId pl now)\<lparr>sc_id := scenario_seq w\<rparr>"

definition new_scenario :: "int \<Rightarrow> payload \<Rightarrow> int \<Rightarrow> world \<Rightarrow> scenario_obj" where
  "new_scenario projId pl now w =
     \<lparr>so_row = new_row projId pl now w,
      so_data = Some [(''res_gen_at'', JNum 0), (''rn_updated_at'', JNum 0)],
      so_admin_areas = Some [],
      so_roadNetworkUpload = None\<rparr>"

definition based_world :: "int \<Rightarrow> payload \<Rightarrow> int \<Rightarrow> world \<Rightarrow> world" where
  "based_world projId pl now w =
     w\<lparr>scenarios := scenarios w @ [new_row projId pl now w],
       scenario_seq := scenario_seq w + 1,
       scenarios_settings := scenarios_settings w @ initial_settings (scenario_seq w) now\<rparr>"

text \<open>Further sample data: payloads, worlds and the results of the sample request.\<close>

definition taken_payload :: payload where
  "taken_payload = example_payload\<lparr>pl_name := ''Main''\<rparr>"

definition foreign_key_error :: error where
  "foreign_key_error =
     Error StorageError ''insert violates foreign key constraint''
       (Some ''scenarios_project_id_foreign'')"

definition insert_broken_world :: world where
  "insert_broken_world = example_world\<lparr>scenarios_insert_fault := Some foreign_key_error\<rparr>"

definition test_world :: world where
  "test_world = example_world\<lparr>DS_ENV := Some ''test''\<rparr>"

definition pending_world :: world where
  "pending_world = example_world\<lparr>projects := [\<lparr>proj_id = 1, proj_status = ''pending''\<rparr>]\<rparr>"

definition missing_source_payload :: payload where
  "missing_source_payload = example_payload\<lparr>pl_roadNetworkSourceScenario := Some 9\<rparr>"

definition example_data :: obj where
  "example_data =
     [(''rnSource'', JStr ''clone''), (''poiSource'', JStr ''clone''),
      (''rnSourceScenarioId'', JNum 1), (''poiSourceScenarioId'', JNum 1)]"

definition example_result :: "world \<Rightarrow> world" where
  "example_result w =
     createScenario 1 2 1 example_data (started_world 1 2 (based_world 1 example_payload 5 w))"

definition main_row :: scenario_row where
  "main_row =
     \<lparr>sc_id = 1, sc_name = ''Main'', sc_description = ''Ref'', sc_status = ''active'',
      sc_master = True, sc_project_id = 1, sc_created_at = 0, sc_updated_at = 0\<rparr>"

text \<open>A project in which the first numbered copy of the main scenario exists already.\<close>

definition crowded_world :: world where
  "crowded_world =
     example_world
       \<lparr>scenarios := scenarios example_world @
          [\<lparr>sc_id = 2, sc_name = ''Main (2)'', sc_description = [], sc_status = ''active'',
            sc_master = False, sc_project_id = 1, sc_created_at = 1, sc_updated_at = 1\<rparr>],
        scenario_seq := 3\<rparr>"

text \<open>
  The row that the duplicate route inserts for the copy, and the copy in the sample
  project whose first numbered name is taken.
\<close>

definition copied_row :: "world \<Rightarrow> int \<Rightarrow> int \<Rightarrow> scenario_row \<Rightarrow> int \<Rightarrow> scenario_row" where
  "copied_row w projId scId src now =
     \<lparr>sc_id = scenario_seq w,
      sc_name = pl_name (duplicate_payload w projId scId src),
      sc_description = sc_description src,
      sc_status = ''pending'', sc_master = False, sc_project_id = projId,
      sc_created_at = now, sc_updated_at = now\<rparr>"

definition crowded_copy :: scenario_row where
  "crowded_copy =
     \<lparr>sc_id = 3, sc_name = ''Main (3)'', sc_description = ''Ref'', sc_status = ''pending'',
      sc_master = False, sc_project_id = 1, sc_created_at = 5, sc_updated_at = 5\<rparr>"












section \<open>Properties of \<^verbatim>\<open>startOperation\<close>\<close>

lemma startOperation_cases:
  "(\<exists>err. startOperation dm projId scId w = (Inl err, w)) \<or>
   startOperation dm projId scId w = (Inr (started_operation projId scId w), started_world projId scId w)"
  by (auto simp: startOperation_def start_def log_def append_entry_def Let_def
      started_operation_def started_world_def start_entry_def started_entry_def
      split: sum.splits)

lemma startOperation_Inr:
  assumes "startOperation dm projId scId w = (Inr op, w')"
  shows "op = started_operation projId scId w" and "w' = started_world projId scId w"
  using assms startOperation_cases [of dm projId scId w] by auto

lemma startOperation_Inl:
  assumes "startOperation dm projId scId w = (Inl err, w')"
  shows "w' = w"
  using assms startOperation_cases [of dm projId scId w] by auto

lemma startOperation_conflict:
  assumes "load_for_start dm projId scId w = Inr op" and "isStarted op"
  shows "startOperation dm projId scId w =
           (Inl (Error DataConflictError ''Scenario creation already in progress'' None), w)"
  using assms by (simp add: startOperation_def)

lemma entries_started_world:
  assumes "ids_fresh w"
  shows "entries_of (started_world projId scId w) (operation_seq w) =
           [start_entry (operation_seq w), started_entry (operation_seq w)]"
proof -
  from assms have "\<forall>e\<in>set (operations_logs w). log_operation_id e \<noteq> operation_seq w"
    by (auto simp: ids_fresh_def list_all_iff)
  then have "filter (\<lambda>e. log_operation_id e = operation_seq w) (operations_logs w) = []"
    by (simp add: filter_empty_conv)
  then show ?thesis
    by (simp add: entries_of_def started_world_def start_entry_def started_entry_def)
qed

lemma loadByData_started_world:
  "loadByData dm (started_world projId scId w) ''scenario-create'' projId scId =
     Inr (load_row (started_world projId scId w)
            \<lparr>opr_id = operation_seq w, opr_type = ''scenario-create'',
             opr_project_id = projId, opr_scenario_id = scId\<rparr>)"
  by (simp add: loadByData_def started_world_def)

lemma startOperation_twice:
  assumes "ids_fresh w" and "operations_load_fault w = None"
    and "startOperation dm projId scId w = (Inr op, w')"
  shows "startOperation dm projId scId w' =
           (Inl (Error DataConflictError ''Scenario creation already in progress'' None), w')"
proof -
  from assms(3) have w': "w' = started_world projId scId w" by (rule startOperation_Inr)
  have f: "operations_load_fault w' = None" using assms(2) by (simp add: w' started_world_def)
  let ?r = "\<lparr>opr_id = operation_seq w, opr_type = ''scenario-create'',
             opr_project_id = projId, opr_scenario_id = scId\<rparr>"
  have l: "load_for_start dm projId scId w' = Inr (load_row w' ?r)"
    using f by (simp add: load_for_start_def w' loadByData_started_world)
  have "op_entries (load_row w' ?r) = [start_entry (operation_seq w), started_entry (operation_seq w)]"
    using entries_started_world [OF assms(1)] by (simp add: load_row_def w')
  then have "isStarted (load_row w' ?r)"
    by (simp add: isStarted_def isCompleted_def is_terminal_def start_entry_def started_entry_def)
  with l show ?thesis by (rule startOperation_conflict)
qed

lemma example_world_fresh: "ids_fresh example_world"
  by (simp add: ids_fresh_def example_world_def empty_world_def)

lemma example_world_no_fault: "operations_load_fault example_world = None"
  by (simp add: example_world_def empty_world_def)

lemma example_start:
  "startOperation example_messages 1 2 example_world =
     (Inr (started_operation 1 2 example_world), started_world 1 2 example_world)"
  by (simp add: startOperation_def load_for_start_def loadByData_def example_world_def
      empty_world_def example_messages_def start_def log_def append_entry_def Let_def
      started_operation_def started_world_def start_entry_def started_entry_def)

text \<open>
  Claim C1. If the most recent operation of the triple exists and \<^verbatim>\<open>isStarted()\<close> holds
  for it, \<^verbatim>\<open>startOperation\<close> fails with
  \<^verbatim>\<open>DataConflictError('Scenario creation already in progress')\<close> and the world is the
  one it was called in: no operation row and no log entry is written. In particular,
  when a first call has started an operation, a second call for the same triple in the
  world the first one left reports the conflict.
\<close>

theorem startOperation_in_progress:
  "(operations_load_fault w = None \<and>
    loadByData dm w ''scenario-create'' projId scId = Inr op \<and> isStarted op \<longrightarrow>
      startOperation dm projId scId w =
        (Inl (Error DataConflictError ''Scenario creation already in progress'' None), w)) \<and>
   (ids_fresh w \<and> operations_load_fault w = None \<and>
    startOperation dm projId scId w = (Inr op1, w1) \<longrightarrow>
      startOperation dm projId scId w1 =
        (Inl (Error DataConflictError ''Scenario creation already in progress'' None), w1))"
proof (intro conjI impI)
  assume a: "operations_load_fault w = None \<and>
    loadByData dm w ''scenario-create'' projId scId = Inr op \<and> isStarted op"
  then have "load_for_start dm projId scId w = Inr op" by (simp add: load_for_start_def)
  with a show "startOperation dm projId scId w =
        (Inl (Error DataConflictError ''Scenario creation already in progress'' None), w)"
    by (simp add: startOperation_conflict)
next
  assume "ids_fresh w \<and> operations_load_fault w = None \<and>
    startOperation dm projId scId w = (Inr op1, w1)"
  then have b: "ids_fresh w" "operations_load_fault w = None"
    "startOperation dm projId scId w = (Inr op1, w1)" by simp_all
  show "startOperation dm projId scId w1 =
        (Inl (Error DataConflictError ''Scenario creation already in progress'' None), w1)"
    by (rule startOperation_twice [OF b])
qed

theorem startOperation_in_progress_witness:
  "ids_fresh example_world \<and> operations_load_fault example_world = None \<and>
   startOperation example_messages 1 2 example_world =
     (Inr (started_operation 1 2 example_world), started_world 1 2 example_world) \<and>
   operations_load_fault (started_world 1 2 example_world) = None \<and>
   loadByData example_messages (started_world 1 2 example_world) ''scenario-create'' 1 2 =
     Inr (started_operation 1 2 example_world) \<and>
   isStarted (started_operation 1 2 example_world) \<and>
   startOperation example_messages 1 2 (started_world 1 2 example_world) =
     (Inl (Error DataConflictError ''Scenario creation already in progress'' None),
      started_world 1 2 example_world)"
proof -
  have l: "loadByData example_messages (started_world 1 2 example_world) ''scenario-create'' 1 2 =
     Inr (started_operation 1 2 example_world)"
    by (simp add: loadByData_def load_row_def entries_of_def started_world_def
        started_operation_def start_entry_def started_entry_def example_world_def
        empty_world_def)
  have i: "isStarted (started_operation 1 2 example_world)"
    by (simp add: isStarted_def isCompleted_def is_terminal_def started_operation_def
        start_entry_def started_entry_def)
  have f: "operations_load_fault (started_world 1 2 example_world) = None"
    by (simp add: started_world_def example_world_def empty_world_def)
  from startOperation_in_progress
    [of "started_world 1 2 example_world" example_messages 1 2
        "started_operation 1 2 example_world"] l i f
  have "startOperation example_messages 1 2 (started_world 1 2 example_world) =
     (Inl (Error DataConflictError ''Scenario creation already in progress'' None),
      started_world 1 2 example_world)"
    by simp
  with l i f example_world_fresh example_world_no_fault example_start show ?thesis
    by simp
qed

lemma startOperation_load_error:
  assumes "load_for_start dm projId scId w = Inl err"
  shows "startOperation dm projId scId w =
     (if js_match ''not exist'' (err_message err)
      then (Inr (started_operation projId scId w), started_world projId scId w)
      else (Inl err, w))"
  using assms
  by (simp add: startOperation_def start_def log_def append_entry_def Let_def
      started_operation_def started_world_def start_entry_def started_entry_def)

lemma loadByData_none:
  assumes "\<not> list_ex (\<lambda>r. opr_type r = t \<and> opr_project_id r = projId \<and> opr_scenario_id r = scId)
             (operations w)"
  shows "loadByData dm w t projId scId = Inl (Error NotFoundError (dm NotFoundError) None)"
proof -
  from assms have "find (\<lambda>r. opr_type r = t \<and> opr_project_id r = projId \<and> opr_scenario_id r = scId)
     (rev (operations w)) = None"
    by (simp add: find_None_iff list_ex_iff)
  then show ?thesis by (simp add: loadByData_def)
qed

lemma broken_load:
  "load_for_start example_messages 1 2 broken_world =
     Inl (Error StorageError ''Connection terminated unexpectedly'' None)"
  by (simp add: load_for_start_def broken_world_def)

lemma faulty_load:
  "load_for_start example_messages 1 2 faulty_world =
     Inl (Error StorageError ''relation operations does not exist'' None)"
  by (simp add: load_for_start_def faulty_world_def)

text \<open>
  Claim C4. With no operation for the triple the load fails, and \<^verbatim>\<open>startOperation\<close>
  recognises that failure by the text of the error: a message that contains
  \<^verbatim>\<open>not exist\<close> counts as "no conflicting run" and a new operation is started; an error
  without that text, such as a lost connection, propagates unchanged and nothing is
  written. The test is wider than the comment beside it says: a storage error whose text
  happens to contain \<^verbatim>\<open>not exist\<close> does not propagate either. At that input the load
  fails with \<^verbatim>\<open>relation operations does not exist\<close>, the error is dropped and an
  operation is started.
\<close>

theorem startOperation_swallows_storage_error:
  "load_for_start example_messages 1 2 faulty_world =
     Inl (Error StorageError ''relation operations does not exist'' None) \<and>
   startOperation example_messages 1 2 faulty_world =
     (Inr (started_operation 1 2 faulty_world), started_world 1 2 faulty_world) \<and>
   operations (started_world 1 2 faulty_world) =
     [\<lparr>opr_id = 1, opr_type = ''scenario-create'', opr_project_id = 1, opr_scenario_id = 2\<rparr>] \<and>
   load_for_start example_messages 1 2 broken_world =
     Inl (Error StorageError ''Connection terminated unexpectedly'' None) \<and>
   startOperation example_messages 1 2 broken_world =
     (Inl (Error StorageError ''Connection terminated unexpectedly'' None), broken_world)"
proof -
  have o: "operations (started_world 1 2 faulty_world) =
     [\<lparr>opr_id = 1, opr_type = ''scenario-create'', opr_project_id = 1, opr_scenario_id = 2\<rparr>]"
    by (simp add: started_world_def faulty_world_def example_world_def empty_world_def)
  show ?thesis
    using faulty_load broken_load o
      startOperation_load_error [OF faulty_load] startOperation_load_error [OF broken_load]
    by simp
qed

section \<open>Properties of the completion handlers\<close>

lemma loadById_Inr:
  assumes "loadById dm w i = Inr op"
  shows "op_id op = i" and "op_entries op = entries_of w i"
proof -
  from assms obtain r where r: "find (\<lambda>r. opr_id r = i) (operations w) = Some r"
    and op: "op = load_row w r"
    by (auto simp: loadById_def split: option.splits)
  from r have "opr_id r = i" by (auto simp: find_Some_iff)
  with op show "op_id op = i" and "op_entries op = entries_of w i"
    by (simp_all add: load_row_def)
qed

lemma loadById_append_logs:
  "loadById dm (w\<lparr>operations_logs := ls\<rparr>) i =
     map_sum id (\<lambda>op. op\<lparr>op_entries := filter (\<lambda>e. log_operation_id e = op_id op) ls\<rparr>)
       (loadById dm w i)"
  by (simp add: loadById_def load_row_def entries_of_def split: option.splits)

lemma on_complete_open:
  assumes "loadById dm w opId = Inr op" and "\<not> isCompleted op"
  shows "on_complete dm opId (Some e) w =
           w\<lparr>operations_logs := operations_logs w @ [error_entry opId (err_message e) True]\<rparr>"
  using assms loadById_Inr(1) [OF assms(1)]
  by (simp add: on_complete_def finish_def append_entry_def error_entry_def)

lemma on_complete_offline_open:
  assumes "loadById dm w opId = Inr op" and "\<not> isCompleted op"
  shows "on_complete_offline dm opId (Some e) w =
           w\<lparr>operations_logs := operations_logs w @
               [error_entry opId (err_message e) False, finish_entry opId]\<rparr>"
  using assms loadById_Inr(1) [OF assms(1)]
  by (simp add: on_complete_offline_def log_def finish_def append_entry_def error_entry_def
      finish_entry_def)

lemma completed_after_append:
  assumes "loadById dm w opId = Inr op" and "list_ex (\<lambda>e. log_operation_id e = opId \<and> is_terminal e) es"
  shows "completed_after dm (w\<lparr>operations_logs := operations_logs w @ es\<rparr>) opId"
  using assms loadById_Inr(1) [OF assms(1)]
  by (auto simp: completed_after_def loadById_append_logs isCompleted_def list_ex_iff)

lemma example_started_load:
  "loadById example_messages (started_world 1 2 example_world) 1 =
     Inr (started_operation 1 2 example_world)"
  by (simp add: loadById_def load_row_def entries_of_def started_world_def
      started_operation_def start_entry_def started_entry_def example_world_def
      empty_world_def)

lemma example_started_open: "\<not> isCompleted (started_operation 1 2 example_world)"
  by (simp add: isCompleted_def is_terminal_def started_operation_def
      start_entry_def started_entry_def)

lemma example_errored_load:
  "loadById example_messages errored_world 1 = Inr errored_operation"
  by (simp add: loadById_def load_row_def entries_of_def started_world_def errored_world_def
      errored_operation_def error_entry_def
      started_operation_def start_entry_def started_entry_def example_world_def
      empty_world_def)

lemma example_errored_closed: "isCompleted errored_operation"
  by (simp add: isCompleted_def is_terminal_def errored_operation_def error_entry_def)

text \<open>
  Claim C2. On a completion signal with an error for operation \<open>opId\<close>: when the reloaded
  operation is not completed, \<^verbatim>\<open>scenarios--create.js\<close> appends exactly one entry, the
  terminal \<^verbatim>\<open>error\<close> entry with the error message, and the operation is completed
  afterwards; the older handler of \<^verbatim>\<open>offline.js\<close> appends exactly one \<^verbatim>\<open>error\<close> entry
  with the message, followed by the entry of its \<^verbatim>\<open>finish()\<close>, and the operation is
  completed afterwards. When the reloaded operation is already completed, neither
  handler writes anything.
\<close>

theorem completion_error_closes_once:
  "(loadById dm w opId = Inr op \<and> \<not> isCompleted op \<longrightarrow>
      on_complete dm opId (Some e) w =
        w\<lparr>operations_logs := operations_logs w @ [error_entry opId (err_message e) True]\<rparr> \<and>
      completed_after dm (on_complete dm opId (Some e) w) opId \<and>
      on_complete_offline dm opId (Some e) w =
        w\<lparr>operations_logs := operations_logs w @
            [error_entry opId (err_message e) False, finish_entry opId]\<rparr> \<and>
      completed_after dm (on_complete_offline dm opId (Some e) w) opId) \<and>
   (loadById dm w opId = Inr op \<and> isCompleted op \<longrightarrow>
      on_complete dm opId (Some e) w = w \<and> on_complete_offline dm opId (Some e) w = w)"
proof (intro conjI impI)
  assume a: "loadById dm w opId = Inr op \<and> isCompleted op"
  then show "on_complete dm opId (Some e) w = w"
    by (simp add: on_complete_def)
  from a show "on_complete_offline dm opId (Some e) w = w"
    by (simp add: on_complete_offline_def)
next
  assume "loadById dm w opId = Inr op \<and> \<not> isCompleted op"
  then have l: "loadById dm w opId = Inr op" and c: "\<not> isCompleted op" by simp_all
  show 1: "on_complete dm opId (Some e) w =
        w\<lparr>operations_logs := operations_logs w @ [error_entry opId (err_message e) True]\<rparr>"
    by (rule on_complete_open [OF l c])
  show 2: "on_complete_offline dm opId (Some e) w =
        w\<lparr>operations_logs := operations_logs w @
            [error_entry opId (err_message e) False, finish_entry opId]\<rparr>"
    by (rule on_complete_offline_open [OF l c])
  show "completed_after dm (on_complete dm opId (Some e) w) opId"
    unfolding 1 by (rule completed_after_append [OF l]) (simp add: error_entry_def is_terminal_def)
  show "completed_after dm (on_complete_offline dm opId (Some e) w) opId"
    unfolding 2 by (rule completed_after_append [OF l]) (simp add: error_entry_def is_terminal_def)
qed

theorem completion_error_closes_once_witness:
  "loadById example_messages (started_world 1 2 example_world) 1 =
     Inr (started_operation 1 2 example_world) \<and>
   \<not> isCompleted (started_operation 1 2 example_world) \<and>
   on_complete example_messages 1 (Some disk_full) (started_world 1 2 example_world) =
     errored_world \<and>
   completed_after example_messages errored_world 1 \<and>
   loadById example_messages errored_world 1 = Inr errored_operation \<and>
   isCompleted errored_operation \<and>
   on_complete example_messages 1 (Some disk_full) errored_world = errored_world \<and>
   on_complete_offline example_messages 1 (Some disk_full) errored_world = errored_world \<and>
   on_complete_offline example_messages 1 (Some disk_full) (started_world 1 2 example_world) =
     (started_world 1 2 example_world)
       \<lparr>operations_logs := operations_logs (started_world 1 2 example_world) @
          [error_entry 1 ''disk full'' False, finish_entry 1]\<rparr>"
proof -
  have m: "err_message disk_full = ''disk full''" by (simp add: disk_full_def)
  from completion_error_closes_once
    [of example_messages "started_world 1 2 example_world" 1
        "started_operation 1 2 example_world" disk_full]
    example_started_load example_started_open
  have c1: "on_complete example_messages 1 (Some disk_full) (started_world 1 2 example_world) =
      (started_world 1 2 example_world)
        \<lparr>operations_logs := operations_logs (started_world 1 2 example_world) @
           [error_entry 1 (err_message disk_full) True]\<rparr>"
    and c2: "completed_after example_messages
      (on_complete example_messages 1 (Some disk_full) (started_world 1 2 example_world)) 1"
    and c3: "on_complete_offline example_messages 1 (Some disk_full)
        (started_world 1 2 example_world) =
      (started_world 1 2 example_world)
        \<lparr>operations_logs := operations_logs (started_world 1 2 example_world) @
           [error_entry 1 (err_message disk_full) False, finish_entry 1]\<rparr>"
    by blast+
  from c1 have 1: "on_complete example_messages 1 (Some disk_full)
      (started_world 1 2 example_world) = errored_world"
    by (simp add: errored_world_def m)
  from c2 1 have 2: "completed_after example_messages errored_world 1" by simp
  from completion_error_closes_once
    [of example_messages errored_world 1 errored_operation disk_full]
    example_errored_load example_errored_closed
  have 3: "on_complete example_messages 1 (Some disk_full) errored_world = errored_world"
    and 4: "on_complete_offline example_messages 1 (Some disk_full) errored_world = errored_world"
    by simp_all
  from c3 have 5: "on_complete_offline example_messages 1 (Some disk_full)
        (started_world 1 2 example_world) =
      (started_world 1 2 example_world)
        \<lparr>operations_logs := operations_logs (started_world 1 2 example_world) @
           [error_entry 1 ''disk full'' False, finish_entry 1]\<rparr>"
    by (simp add: m)
  from 1 2 3 4 5 example_started_load example_started_open example_errored_load
    example_errored_closed
  show ?thesis by simp
qed

section \<open>Properties of the create and duplicate handlers\<close>

lemma check_clone_source_ok:
  "check_clone_source e projId src sid w = Inr () \<longleftrightarrow>
   check_clone_source e' projId src sid w = Inr ()"
  by (simp add: check_clone_source_def split: list.splits)

lemma handler_body_project_error:
  assumes "check_project dm projId w = Inl err"
  shows "handler_body dm projId pl now upload_now w = (Inl err, w)"
    and "handler_offline_body dm projId pl now upload_now w = (Inl err, w)"
  using assms by (simp_all add: handler_body_def handler_offline_body_def)

lemma handler_body_clone_error:
  assumes "check_project dm projId w = Inr ()"
    and "pl_roadNetworkSource pl = ''clone''"
    and "filter (\<lambda>s. Some (sc_id s) = pl_roadNetworkSourceScenario pl \<and> sc_project_id s = projId)
           (scenarios w) = []"
  shows "handler_body dm projId pl now upload_now w =
           (Inl (Error ScenarioNotFoundError ''Source scenario for cloning not found'' None), w)"
    and "handler_offline_body dm projId pl now upload_now w =
           (Inl (Error ScenarioNotFoundError (dm ScenarioNotFoundError) None), w)"
  using assms
  by (simp_all add: handler_body_def handler_offline_body_def check_clone_source_def)

lemma handler_error_footprint:
  assumes "handler_body dm projId pl now upload_now w = (Inl err, w)"
  shows "footprint (snd (handler dm projId pl now upload_now w)) = footprint w"
  using assms by (simp add: handler_def footprint_def Let_def split: option.splits)

lemma handler_offline_error_world:
  assumes "handler_offline_body dm projId pl now upload_now w = (Inl err, w)"
  shows "snd (handler_offline dm projId pl now upload_now w) = w"
  using assms by (simp add: handler_offline_def)

lemma validated_bodies:
  assumes "validated dm projId pl w"
  shows "handler_body dm projId pl now upload_now w =
     (case create_scenario_base projId pl now w of
        (Inl err, w1) \<Rightarrow> (Inl err, w1)
      | (Inr scenario, w1) \<Rightarrow>
     (case startOperation dm projId (sc_id (so_row scenario)) w1 of
        (Inl err, w2) \<Rightarrow> (Inl err, w2)
      | (Inr op, w2) \<Rightarrow>
     (case job_data pl scenario upload_now w2 of
        (Inl err, w3) \<Rightarrow> (Inl err, w3)
      | (Inr d, w3) \<Rightarrow>
          (Inr scenario,
           createScenario projId (sc_id (so_row scenario)) (getId op) d w3))))"
proof -
  from assms have 1: "check_project dm projId w = Inr ()" by (simp add: validated_def)
  from assms have "check_clone_source (Error ScenarioNotFoundError [] None) projId
        (pl_roadNetworkSource pl) (pl_roadNetworkSourceScenario pl) w = Inr ()"
    by (simp add: validated_def)
  then have 2: "check_clone_source
      (Error ScenarioNotFoundError ''Source scenario for cloning not found'' None) projId
        (pl_roadNetworkSource pl) (pl_roadNetworkSourceScenario pl) w = Inr ()"
    using check_clone_source_ok by blast
  show ?thesis by (simp add: handler_body_def 1 2)
qed

lemma validated_offline_insert_error:
  assumes "validated dm projId pl w"
    and "insert_scenario (scenario_info projId pl now) w = Inl err"
  shows "handler_offline_body dm projId pl now upload_now w =
           (Inl (insert_catch (pl_name pl) err), w)"
proof -
  from assms have 1: "check_project dm projId w = Inr ()" by (simp add: validated_def)
  from assms have "check_clone_source (Error ScenarioNotFoundError [] None) projId
        (pl_roadNetworkSource pl) (pl_roadNetworkSourceScenario pl) w = Inr ()"
    by (simp add: validated_def)
  then have 2: "check_clone_source
      (Error ScenarioNotFoundError (dm ScenarioNotFoundError) None) projId
        (pl_roadNetworkSource pl) (pl_roadNetworkSourceScenario pl) w = Inr ()"
    using check_clone_source_ok by blast
  show ?thesis by (simp add: handler_offline_body_def 1 2 assms(2))
qed

lemma validated_insert_error:
  assumes "validated dm projId pl w"
    and "insert_scenario (scenario_info projId pl now) w = Inl err"
  shows "handler_body dm projId pl now upload_now w = (Inl (insert_catch (pl_name pl) err), w)"
  using assms(2) by (simp add: validated_bodies [OF assms(1)] create_scenario_base_def)

lemma insert_scenario_taken:
  assumes "scenarios_insert_fault w = None"
    and "list_ex (\<lambda>r. sc_project_id r = projId \<and> sc_name r = pl_name pl) (scenarios w)"
  shows "insert_scenario (scenario_info projId pl now) w =
           Inl (Error StorageError ''duplicate key value violates unique constraint''
                  (Some ''scenarios_project_id_name_unique''))"
  using assms by (simp add: insert_scenario_def scenario_info_def)

lemma insert_scenario_fault:
  assumes "scenarios_insert_fault w = Some err"
  shows "insert_scenario info w = Inl err"
  using assms by (simp add: insert_scenario_def)

text \<open>
  Claim C8. When the validation has passed and the project already has a scenario of the
  requested name, the insert violates \<^verbatim>\<open>scenarios_project_id_name_unique\<close> and the
  handler (of either file) fails with
  \<^verbatim>\<open>DataConflictError('Scenario name already in use for this project: <name>')\<close>; the
  world is unchanged, so no operation is started and no job is dispatched. An insert
  error that carries another constraint, or none, propagates unchanged.
\<close>

theorem name_in_use_conflict:
  "(validated dm projId pl w \<and> scenarios_insert_fault w = None \<and>
    list_ex (\<lambda>r. sc_project_id r = projId \<and> sc_name r = pl_name pl) (scenarios w) \<longrightarrow>
      handler_body dm projId pl now upload_now w =
        (Inl (Error DataConflictError
                (''Scenario name already in use for this project: '' @ pl_name pl) None), w) \<and>
      handler_offline_body dm projId pl now upload_now w =
        (Inl (Error DataConflictError
                (''Scenario name already in use for this project: '' @ pl_name pl) None), w) \<and>
      footprint (snd (handler dm projId pl now upload_now w)) = footprint w \<and>
      snd (handler_offline dm projId pl now upload_now w) = w) \<and>
   (validated dm projId pl w \<and> scenarios_insert_fault w = Some err \<and>
    err_constraint err \<noteq> Some ''scenarios_project_id_name_unique'' \<longrightarrow>
      handler_body dm projId pl now upload_now w = (Inl err, w) \<and>
      handler_offline_body dm projId pl now upload_now w = (Inl err, w))"
proof (intro conjI impI)
  let ?c = "Error DataConflictError
                (''Scenario name already in use for this project: '' @ pl_name pl) None"
  assume a: "validated dm projId pl w \<and> scenarios_insert_fault w = None \<and>
    list_ex (\<lambda>r. sc_project_id r = projId \<and> sc_name r = pl_name pl) (scenarios w)"
  then have v: "validated dm projId pl w" by simp
  from a have i: "insert_scenario (scenario_info projId pl now) w =
           Inl (Error StorageError ''duplicate key value violates unique constraint''
                  (Some ''scenarios_project_id_name_unique''))"
    by (simp add: insert_scenario_taken)
  show 1: "handler_body dm projId pl now upload_now w = (Inl ?c, w)"
    using validated_insert_error [OF v i] by (simp add: insert_catch_def)
  show 2: "handler_offline_body dm projId pl now upload_now w = (Inl ?c, w)"
    using validated_offline_insert_error [OF v i] by (simp add: insert_catch_def)
  show "footprint (snd (handler dm projId pl now upload_now w)) = footprint w"
    by (rule handler_error_footprint [OF 1])
  show "snd (handler_offline dm projId pl now upload_now w) = w"
    by (rule handler_offline_error_world [OF 2])
next
  assume a: "validated dm projId pl w \<and> scenarios_insert_fault w = Some err \<and>
    err_constraint err \<noteq> Some ''scenarios_project_id_name_unique''"
  then have v: "validated dm projId pl w" by simp
  from a have i: "insert_scenario (scenario_info projId pl now) w = Inl err"
    by (simp add: insert_scenario_fault)
  from a show "handler_body dm projId pl now upload_now w = (Inl err, w)"
    using validated_insert_error [OF v i] by (simp add: insert_catch_def)
  from a show "handler_offline_body dm projId pl now upload_now w = (Inl err, w)"
    using validated_offline_insert_error [OF v i] by (simp add: insert_catch_def)
qed

lemma example_validated:
  "validated example_messages 1 example_payload example_world"
  "validated example_messages 1 taken_payload example_world"
  "validated example_messages 1 example_payload insert_broken_world"
  by (simp_all add: validated_def check_project_def check_clone_source_def example_world_def
      empty_world_def example_payload_def taken_payload_def insert_broken_world_def)

theorem name_in_use_conflict_witness:
  "validated example_messages 1 taken_payload example_world \<and>
   scenarios_insert_fault example_world = None \<and>
   list_ex (\<lambda>r. sc_project_id r = 1 \<and> sc_name r = pl_name taken_payload) (scenarios example_world) \<and>
   handler_body example_messages 1 taken_payload 5 6 example_world =
     (Inl (Error DataConflictError ''Scenario name already in use for this project: Main'' None),
      example_world) \<and>
   validated example_messages 1 example_payload insert_broken_world \<and>
   scenarios_insert_fault insert_broken_world = Some foreign_key_error \<and>
   handler_body example_messages 1 example_payload 5 6 insert_broken_world =
     (Inl foreign_key_error, insert_broken_world)"
proof -
  have f: "scenarios_insert_fault example_world = None"
    by (simp add: example_world_def empty_world_def)
  have t: "list_ex (\<lambda>r. sc_project_id r = 1 \<and> sc_name r = pl_name taken_payload)
             (scenarios example_world)"
    by (simp add: example_world_def empty_world_def taken_payload_def)
  have n: "pl_name taken_payload = ''Main''" by (simp add: taken_payload_def)
  have g: "scenarios_insert_fault insert_broken_world = Some foreign_key_error"
    by (simp add: insert_broken_world_def)
  have c: "err_constraint foreign_key_error \<noteq> Some ''scenarios_project_id_name_unique''"
    by (simp add: foreign_key_error_def)
  from name_in_use_conflict
    [where dm = example_messages and projId = 1 and pl = taken_payload and w = example_world
       and now = 5 and upload_now = 6]
    example_validated(2) f t n
  have 1: "handler_body example_messages 1 taken_payload 5 6 example_world =
     (Inl (Error DataConflictError ''Scenario name already in use for this project: Main'' None),
      example_world)"
    by simp
  from name_in_use_conflict
    [where dm = example_messages and projId = 1 and pl = example_payload
       and w = insert_broken_world and err = foreign_key_error and now = 5 and upload_now = 6]
    example_validated(3) g c
  have 2: "handler_body example_messages 1 example_payload 5 6 insert_broken_world =
     (Inl foreign_key_error, insert_broken_world)"
    by simp
  from 1 2 f t g example_validated show ?thesis by simp
qed

lemma check_project_missing:
  assumes "filter (\<lambda>p. proj_id p = projId) (projects w) = []"
  shows "check_project dm projId w = Inl (Error ProjectNotFoundError (dm ProjectNotFoundError) None)"
  using assms by (simp add: check_project_def)

lemma check_project_pending:
  assumes "filter (\<lambda>p. proj_id p = projId) (projects w) = p # ps"
    and "proj_status p = ''pending''"
  shows "check_project dm projId w = Inl (Error DataConflictError ''Project setup not completed'' None)"
  using assms by (simp add: check_project_def)

lemma check_project_ready:
  assumes "filter (\<lambda>p. proj_id p = projId) (projects w) = p # ps"
    and "proj_status p \<noteq> ''pending''"
  shows "check_project dm projId w = Inr ()"
  using assms by (simp add: check_project_def)

text \<open>
  Claim C5, as the code has it. For a create request (both files), in this order: a
  missing project fails with \<^verbatim>\<open>ProjectNotFoundError\<close>, a pending project with
  \<^verbatim>\<open>DataConflictError('Project setup not completed')\<close>, and a clone source that is not
  a scenario of the project with \<^verbatim>\<open>ScenarioNotFoundError\<close>; in each case the chain ends
  in the world it started in, and the reply leaves scenarios, settings, operations, log
  entries and services as they were. A duplicate request whose source scenario exists
  in the project is the create handler on the cloning payload, so the same holds; a
  duplicate request whose source scenario does not exist in the project fails with
  \<^verbatim>\<open>ScenarioNotFoundError\<close> before the project is looked at, and changes nothing.
\<close>

theorem validation_fails_first:
  "(filter (\<lambda>p. proj_id p = projId) (projects w) = [] \<longrightarrow>
      handler_body dm projId pl now upload_now w =
        (Inl (Error ProjectNotFoundError (dm ProjectNotFoundError) None), w) \<and>
      handler_offline_body dm projId pl now upload_now w =
        (Inl (Error ProjectNotFoundError (dm ProjectNotFoundError) None), w)) \<and>
   (filter (\<lambda>p. proj_id p = projId) (projects w) = p # ps \<and> proj_status p = ''pending'' \<longrightarrow>
      handler_body dm projId pl now upload_now w =
        (Inl (Error DataConflictError ''Project setup not completed'' None), w) \<and>
      handler_offline_body dm projId pl now upload_now w =
        (Inl (Error DataConflictError ''Project setup not completed'' None), w)) \<and>
   (filter (\<lambda>p. proj_id p = projId) (projects w) = p # ps \<and> proj_status p \<noteq> ''pending'' \<and>
    pl_roadNetworkSource pl = ''clone'' \<and>
    filter (\<lambda>s. Some (sc_id s) = pl_roadNetworkSourceScenario pl \<and> sc_project_id s = projId)
      (scenarios w) = [] \<longrightarrow>
      handler_body dm projId pl now upload_now w =
        (Inl (Error ScenarioNotFoundError ''Source scenario for cloning not found'' None), w) \<and>
      handler_offline_body dm projId pl now upload_now w =
        (Inl (Error ScenarioNotFoundError (dm ScenarioNotFoundError) None), w)) \<and>
   (handler_body dm projId pl now upload_now w = (Inl err, w) \<longrightarrow>
      footprint (snd (handler dm projId pl now upload_now w)) = footprint w) \<and>
   (handler_offline_body dm projId pl now upload_now w = (Inl err, w) \<longrightarrow>
      snd (handler_offline dm projId pl now upload_now w) = w) \<and>
   (find (\<lambda>s. sc_id s = scId \<and> sc_project_id s = projId) (scenarios w) = Some src \<longrightarrow>
      duplicate dm projId scId now upload_now w =
        handler dm projId (duplicate_payload w projId scId src) now upload_now w) \<and>
   (find (\<lambda>s. sc_id s = scId \<and> sc_project_id s = projId) (scenarios w) = None \<longrightarrow>
      duplicate dm projId scId now upload_now w =
        (BoomForError (Error ScenarioNotFoundError (dm ScenarioNotFoundError) None), w))"
proof (intro conjI impI)
  assume "filter (\<lambda>p. proj_id p = projId) (projects w) = []"
  then have c: "check_project dm projId w =
      Inl (Error ProjectNotFoundError (dm ProjectNotFoundError) None)"
    by (rule check_project_missing)
  show "handler_body dm projId pl now upload_now w =
        (Inl (Error ProjectNotFoundError (dm ProjectNotFoundError) None), w)"
    by (rule handler_body_project_error(1) [OF c])
  show "handler_offline_body dm projId pl now upload_now w =
        (Inl (Error ProjectNotFoundError (dm ProjectNotFoundError) None), w)"
    by (rule handler_body_project_error(2) [OF c])
next
  assume "filter (\<lambda>p. proj_id p = projId) (projects w) = p # ps \<and> proj_status p = ''pending''"
  then have c: "check_project dm projId w =
      Inl (Error DataConflictError ''Project setup not completed'' None)"
    by (simp add: check_project_pending)
  show "handler_body dm projId pl now upload_now w =
        (Inl (Error DataConflictError ''Project setup not completed'' None), w)"
    by (rule handler_body_project_error(1) [OF c])
  show "handler_offline_body dm projId pl now upload_now w =
        (Inl (Error DataConflictError ''Project setup not completed'' None), w)"
    by (rule handler_body_project_error(2) [OF c])
next
  assume a: "filter (\<lambda>p. proj_id p = projId) (projects w) = p # ps \<and> proj_status p \<noteq> ''pending'' \<and>
    pl_roadNetworkSource pl = ''clone'' \<and>
    filter (\<lambda>s. Some (sc_id s) = pl_roadNetworkSourceScenario pl \<and> sc_project_id s = projId)
      (scenarios w) = []"
  then have c: "check_project dm projId w = Inr ()" by (simp add: check_project_ready)
  from a have s: "pl_roadNetworkSource pl = ''clone''" and
    n: "filter (\<lambda>s. Some (sc_id s) = pl_roadNetworkSourceScenario pl \<and> sc_project_id s = projId)
      (scenarios w) = []" by simp_all
  show "handler_body dm projId pl now upload_now w =
        (Inl (Error ScenarioNotFoundError ''Source scenario for cloning not found'' None), w)"
    by (rule handler_body_clone_error(1) [OF c s n])
  show "handler_offline_body dm projId pl now upload_now w =
        (Inl (Error ScenarioNotFoundError (dm ScenarioNotFoundError) None), w)"
    by (rule handler_body_clone_error(2) [OF c s n])
next
  assume "handler_body dm projId pl now upload_now w = (Inl err, w)"
  then show "footprint (snd (handler dm projId pl now upload_now w)) = footprint w"
    by (rule handler_error_footprint)
next
  assume "handler_offline_body dm projId pl now upload_now w = (Inl err, w)"
  then show "snd (handler_offline dm projId pl now upload_now w) = w"
    by (rule handler_offline_error_world)
next
  assume "find (\<lambda>s. sc_id s = scId \<and> sc_project_id s = projId) (scenarios w) = Some src"
  then show "duplicate dm projId scId now upload_now w =
        handler dm projId (duplicate_payload w projId scId src) now upload_now w"
    by (simp add: duplicate_def)
next
  assume "find (\<lambda>s. sc_id s = scId \<and> sc_project_id s = projId) (scenarios w) = None"
  then show "duplicate dm projId scId now upload_now w =
        (BoomForError (Error ScenarioNotFoundError (dm ScenarioNotFoundError) None), w)"
    by (simp add: duplicate_def)
qed

text \<open>
  The claim as written also promises \<^verbatim>\<open>ProjectNotFoundError\<close> for a duplicate request
  on a project that does not exist. The duplicate route reads the source scenario first:
  in a store without projects the request fails with \<^verbatim>\<open>ScenarioNotFoundError\<close>.
\<close>

theorem validation_fails_first_counterexample:
  "projects empty_world = [] \<and>
   duplicate example_messages 1 1 5 6 empty_world =
     (BoomForError (Error ScenarioNotFoundError ''Scenario not found'' None), empty_world)"
  by (simp add: duplicate_def empty_world_def example_messages_def)

lemma create_scenario_base_cases:
  "(\<exists>err. create_scenario_base projId pl now w = (Inl err, w)) \<or>
   create_scenario_base projId pl now w =
     (Inr (new_scenario projId pl now w), based_world projId pl now w)"
  by (auto simp: create_scenario_base_def insert_scenario_def Let_def new_scenario_def
      new_row_def based_world_def split: option.splits)

lemma create_scenario_base_Inr:
  assumes "create_scenario_base projId pl now w = (Inr sc, w1)"
  shows "sc = new_scenario projId pl now w" and "w1 = based_world projId pl now w"
  using assms create_scenario_base_cases [of projId pl now w] by auto

lemma create_scenario_base_Inl:
  assumes "create_scenario_base projId pl now w = (Inl err, w1)"
  shows "w1 = w"
  using assms create_scenario_base_cases [of projId pl now w] by auto

lemma new_scenario_id [simp]: "sc_id (so_row (new_scenario projId pl now w)) = scenario_seq w"
  by (simp add: new_scenario_def new_row_def)

lemma handleRoadNetworkUpload_frame:
  assumes "handleRoadNetworkUpload sc file upload_now w = (r, w')"
  shows "footprint w' = footprint w" and "operation_seq w' = operation_seq w"
    and "DS_ENV w' = DS_ENV w" and "isl r \<longrightarrow> w' = w"
  using assms
  by (auto simp: handleRoadNetworkUpload_def footprint_def Let_def split: option.splits)

lemma job_data_frame:
  assumes "job_data pl sc upload_now w = (r, w')"
  shows "footprint w' = footprint w" and "operation_seq w' = operation_seq w"
    and "DS_ENV w' = DS_ENV w" and "isl r \<longrightarrow> w' = w"
proof -
  obtain r0 w0 where h: "handleRoadNetworkUpload sc (pl_roadNetworkFile pl) upload_now w = (r0, w0)"
    by (cases "handleRoadNetworkUpload sc (pl_roadNetworkFile pl) upload_now w")
  note f = handleRoadNetworkUpload_frame [OF h]
  from assms h have "w' = w \<or> (w' = w0 \<and> (isl r \<longrightarrow> isl r0))"
    by (auto simp: job_data_def Let_def split: if_splits sum.splits prod.splits)
  with f show "footprint w' = footprint w" and "operation_seq w' = operation_seq w"
    and "DS_ENV w' = DS_ENV w" and "isl r \<longrightarrow> w' = w"
    by auto
qed

lemma footprint_started_world:
  "footprint (started_world projId scId w) =
     (scenarios w, scenarios_settings w,
      operations w @ [\<lparr>opr_id = operation_seq w, opr_type = ''scenario-create'',
                       opr_project_id = projId, opr_scenario_id = scId\<rparr>],
      operations_logs w @ [start_entry (operation_seq w), started_entry (operation_seq w)],
      services w)"
  by (simp add: footprint_def started_world_def)

lemma handler_body_Inr:
  assumes "handler_body dm projId pl now upload_now w = (Inr sc, w')"
  obtains d w3 where
    "sc = new_scenario projId pl now w"
    "startOperation dm projId (scenario_seq w) (based_world projId pl now w) =
       (Inr (started_operation projId (scenario_seq w) (based_world projId pl now w)),
        started_world projId (scenario_seq w) (based_world projId pl now w))"
    "job_data pl sc upload_now (started_world projId (scenario_seq w) (based_world projId pl now w)) =
       (Inr d, w3)"
    "w' = createScenario projId (scenario_seq w) (operation_seq w) d w3"
proof -
  from assms obtain w1 where b: "create_scenario_base projId pl now w = (Inr sc, w1)"
    by (auto simp: handler_body_def split: sum.splits prod.splits)
  note b' = create_scenario_base_Inr [OF b]
  from assms b obtain op w2 where
    s: "startOperation dm projId (sc_id (so_row sc)) w1 = (Inr op, w2)"
    by (auto simp: handler_body_def split: sum.splits prod.splits)
  note s' = startOperation_Inr [OF s]
  from assms b s obtain d w3 where j: "job_data pl sc upload_now w2 = (Inr d, w3)"
    and w': "w' = createScenario projId (sc_id (so_row sc)) (getId op) d w3"
    by (auto simp: handler_body_def split: sum.splits prod.splits)
  have i: "getId op = operation_seq w"
    by (simp add: s' b' getId_def started_operation_def based_world_def)
  show ?thesis
    using that [of d w3] b' s s' j w' i by simp
qed

lemma handler_body_Inl:
  assumes "handler_body dm projId pl now upload_now w = (Inl err, w')"
  shows "w' = w \<or> w' = based_world projId pl now w \<or>
         w' = started_world projId (scenario_seq w) (based_world projId pl now w)"
proof -
  from create_scenario_base_cases [of projId pl now w]
  show ?thesis
  proof
    assume "\<exists>e. create_scenario_base projId pl now w = (Inl e, w)"
    with assms show ?thesis
      by (auto simp: handler_body_def split: sum.splits prod.splits)
  next
    let ?sc = "new_scenario projId pl now w" and ?w1 = "based_world projId pl now w"
    assume b: "create_scenario_base projId pl now w = (Inr ?sc, ?w1)"
    from startOperation_cases [of dm projId "scenario_seq w" ?w1]
    show ?thesis
    proof
      assume "\<exists>e. startOperation dm projId (scenario_seq w) ?w1 = (Inl e, ?w1)"
      with assms b show ?thesis
        by (auto simp: handler_body_def split: sum.splits prod.splits)
    next
      let ?w2 = "started_world projId (scenario_seq w) ?w1"
      assume s: "startOperation dm projId (scenario_seq w) ?w1 =
        (Inr (started_operation projId (scenario_seq w) ?w1), ?w2)"
      obtain r w3 where j: "job_data pl ?sc upload_now ?w2 = (r, w3)"
        by (cases "job_data pl ?sc upload_now ?w2")
      from job_data_frame(4) [OF j] assms b s j show ?thesis
        by (auto simp: handler_body_def split: sum.splits prod.splits)
    qed
  qed
qed

lemma createScenario_footprint:
  "footprint (createScenario projId scId opId d w) =
     (scenarios w, scenarios_settings w, operations w, operations_logs w,
      if DS_ENV w = Some ''test'' then services w
      else services w @
        [\<lparr>srv_task = ''scenario-create'',
          srv_data = assign (assign []
             [(''projId'', JNum projId), (''scId'', JNum scId), (''opId'', JNum opId)]) d,
          srv_op_id = opId\<rparr>])"
  by (simp add: createScenario_def footprint_def)

lemma handler_body_Inr_footprint:
  assumes "handler_body dm projId pl now upload_now w = (Inr sc, w')"
  shows "\<exists>d. footprint w' =
     (scenarios w @ [new_row projId pl now w],
      scenarios_settings w @ initial_settings (scenario_seq w) now,
      operations w @ [\<lparr>opr_id = operation_seq w, opr_type = ''scenario-create'',
                       opr_project_id = projId, opr_scenario_id = scenario_seq w\<rparr>],
      operations_logs w @ [start_entry (operation_seq w), started_entry (operation_seq w)],
      if DS_ENV w = Some ''test'' then services w
      else services w @
        [\<lparr>srv_task = ''scenario-create'', srv_data = d, srv_op_id = operation_seq w\<rparr>])"
proof -
  from assms obtain d w3 where
    j: "job_data pl sc upload_now (started_world projId (scenario_seq w) (based_world projId pl now w)) =
       (Inr d, w3)"
    and w': "w' = createScenario projId (scenario_seq w) (operation_seq w) d w3"
    by (rule handler_body_Inr)
  note f = job_data_frame [OF j]
  have "footprint w3 =
     (scenarios w @ [new_row projId pl now w],
      scenarios_settings w @ initial_settings (scenario_seq w) now,
      operations w @ [\<lparr>opr_id = operation_seq w, opr_type = ''scenario-create'',
                       opr_project_id = projId, opr_scenario_id = scenario_seq w\<rparr>],
      operations_logs w @ [start_entry (operation_seq w), started_entry (operation_seq w)],
      services w)"
    using f(1) by (simp add: footprint_started_world based_world_def)
  moreover have "DS_ENV w3 = DS_ENV w"
    using f(3) by (simp add: started_world_def based_world_def)
  ultimately show ?thesis
    unfolding w' createScenario_footprint by (auto simp: footprint_def)
qed

lemma find_app:
  "find P (xs @ ys) = (case find P xs of None \<Rightarrow> find P ys | Some x \<Rightarrow> Some x)"
  by (induction xs) simp_all

lemma loadById_fresh:
  assumes "ids_fresh w"
    and "operations w' = operations w @ [r]" and "opr_id r = operation_seq w"
    and "operations_logs w' = operations_logs w @ es"
    and "list_all (\<lambda>e. log_operation_id e = operation_seq w) es"
  shows "loadById dm w' (operation_seq w) =
           Inr \<lparr>op_id = operation_seq w, op_type = opr_type r,
                op_project_id = opr_project_id r, op_scenario_id = opr_scenario_id r,
                op_entries = es\<rparr>"
proof -
  from assms(1) have "\<forall>x\<in>set (operations w). opr_id x \<noteq> operation_seq w"
    by (auto simp: ids_fresh_def list_all_iff)
  then have "find (\<lambda>x. opr_id x = operation_seq w) (operations w) = None"
    by (simp add: find_None_iff)
  then have f: "find (\<lambda>x. opr_id x = operation_seq w) (operations w') = Some r"
    by (simp add: assms(2,3) find_app)
  from assms(1) have "\<forall>e\<in>set (operations_logs w). log_operation_id e \<noteq> operation_seq w"
    by (auto simp: ids_fresh_def list_all_iff)
  then have "filter (\<lambda>e. log_operation_id e = operation_seq w) (operations_logs w) = []"
    by (simp add: filter_empty_conv)
  moreover from assms(5) have "filter (\<lambda>e. log_operation_id e = operation_seq w) es = es"
    by (simp add: list_all_iff)
  ultimately have "entries_of w' (operation_seq w) = es"
    by (simp add: entries_of_def assms(4))
  with f show ?thesis by (simp add: loadById_def load_row_def assms(3))
qed

lemma handler_body_Inr_load:
  assumes "handler_body dm projId pl now upload_now w = (Inr sc, w')" and "ids_fresh w"
  shows "loadById dm w' (operation_seq w) =
           Inr \<lparr>op_id = operation_seq w, op_type = ''scenario-create'',
                op_project_id = projId, op_scenario_id = scenario_seq w,
                op_entries = [start_entry (operation_seq w), started_entry (operation_seq w)]\<rparr>"
proof -
  from handler_body_Inr_footprint [OF assms(1)]
  have o: "operations w' = operations w @
      [\<lparr>opr_id = operation_seq w, opr_type = ''scenario-create'',
        opr_project_id = projId, opr_scenario_id = scenario_seq w\<rparr>]"
    and l: "operations_logs w' = operations_logs w @
      [start_entry (operation_seq w), started_entry (operation_seq w)]"
    by (auto simp: footprint_def)
  from loadById_fresh [OF assms(2) o _ l] show ?thesis
    by (simp add: start_entry_def started_entry_def)
qed

lemma handler_body_Inr_status:
  assumes "handler_body dm projId pl now upload_now w = (Inr sc, w')" and "ids_fresh w"
  shows "started_after dm w' (operation_seq w)" and "\<not> completed_after dm w' (operation_seq w)"
  using handler_body_Inr_load [OF assms]
  by (simp_all add: started_after_def completed_after_def isStarted_def isCompleted_def
      is_terminal_def start_entry_def started_entry_def)

lemma finish_completes:
  assumes "loadById dm w i = Inr op"
  shows "completed_after dm (snd (finish op arg w)) i"
proof -
  obtain ev d where a: "(case arg of None \<Rightarrow> (''finish'', []) | Some a \<Rightarrow> a) = (ev, d)"
    by (cases "case arg of None \<Rightarrow> (''finish'', []) | Some a \<Rightarrow> a")
  have "snd (finish op arg w) = w\<lparr>operations_logs := operations_logs w @
     [\<lparr>log_operation_id = op_id op, log_event = ev, log_data = d, log_finish = True\<rparr>]\<rparr>"
    by (simp add: finish_def a append_entry_def)
  moreover have "completed_after dm (w\<lparr>operations_logs := operations_logs w @
     [\<lparr>log_operation_id = op_id op, log_event = ev, log_data = d, log_finish = True\<rparr>]\<rparr>) i"
    by (rule completed_after_append [OF assms])
       (simp add: loadById_Inr(1) [OF assms] is_terminal_def)
  ultimately show ?thesis by simp
qed

text \<open>
  Claim C10. A scenario that the create handler replies was inserted with status
  \<^verbatim>\<open>pending\<close> and \<^verbatim>\<open>master = false\<close>, together with exactly the three settings rows
  \<^verbatim>\<open>res_gen_at = 0\<close>, \<^verbatim>\<open>rn_updated_at = 0\<close> and \<^verbatim>\<open>admin_areas = '[]'\<close>, and the replied
  object carries \<^verbatim>\<open>data = {res_gen_at: 0, rn_updated_at: 0}\<close> and
  \<^verbatim>\<open>admin_areas = []\<close>. When the handler fails, either no scenario was inserted, or one
  was, again pending, not master and with the three settings rows.
\<close>

theorem created_scenario_is_pending:
  "(handler_body dm projId pl now upload_now w = (Inr sc, w') \<longrightarrow>
      handler dm projId pl now upload_now w = (ReplyScenario sc, w') \<and>
      scenarios w' = scenarios w @ [so_row sc] \<and>
      sc_status (so_row sc) = ''pending'' \<and> \<not> sc_master (so_row sc) \<and>
      scenarios_settings w' = scenarios_settings w @ initial_settings (sc_id (so_row sc)) now \<and>
      so_data sc = Some [(''res_gen_at'', JNum 0), (''rn_updated_at'', JNum 0)] \<and>
      so_admin_areas sc = Some []) \<and>
   map (\<lambda>r. (set_scenario_id r, set_key r, set_value r)) (initial_settings i now) =
     [(i, ''res_gen_at'', JNum 0), (i, ''rn_updated_at'', JNum 0), (i, ''admin_areas'', JStr ''[]'')] \<and>
   (handler_body dm projId pl now upload_now w = (Inl err, w') \<longrightarrow>
      (scenarios w' = scenarios w \<and> scenarios_settings w' = scenarios_settings w) \<or>
      (\<exists>row. scenarios w' = scenarios w @ [row] \<and> sc_status row = ''pending'' \<and>
             \<not> sc_master row \<and>
             scenarios_settings w' = scenarios_settings w @ initial_settings (sc_id row) now))"
proof (intro conjI impI)
  assume a: "handler_body dm projId pl now upload_now w = (Inr sc, w')"
  then show "handler dm projId pl now upload_now w = (ReplyScenario sc, w')"
    by (simp add: handler_def)
  from a have sc: "sc = new_scenario projId pl now w" by (rule handler_body_Inr)
  from handler_body_Inr_footprint [OF a]
  have s: "scenarios w' = scenarios w @ [new_row projId pl now w]"
    and t: "scenarios_settings w' = scenarios_settings w @ initial_settings (scenario_seq w) now"
    by (auto simp: footprint_def)
  from s show "scenarios w' = scenarios w @ [so_row sc]" by (simp add: sc new_scenario_def)
  from t show "scenarios_settings w' =
      scenarios_settings w @ initial_settings (sc_id (so_row sc)) now"
    by (simp add: sc)
  show "sc_status (so_row sc) = ''pending''"
    by (simp add: sc new_scenario_def new_row_def scenario_info_def)
  show "\<not> sc_master (so_row sc)"
    by (simp add: sc new_scenario_def new_row_def scenario_info_def)
  show "so_data sc = Some [(''res_gen_at'', JNum 0), (''rn_updated_at'', JNum 0)]"
    by (simp add: sc new_scenario_def)
  show "so_admin_areas sc = Some []" by (simp add: sc new_scenario_def)
next
  show "map (\<lambda>r. (set_scenario_id r, set_key r, set_value r)) (initial_settings i now) =
     [(i, ''res_gen_at'', JNum 0), (i, ''rn_updated_at'', JNum 0), (i, ''admin_areas'', JStr ''[]'')]"
    by (simp add: initial_settings_def)
next
  assume "handler_body dm projId pl now upload_now w = (Inl err, w')"
  then have c: "w' = w \<or> w' = based_world projId pl now w \<or>
         w' = started_world projId (scenario_seq w) (based_world projId pl now w)"
    by (rule handler_body_Inl)
  let ?row = "new_row projId pl now w"
  have r: "sc_status ?row = ''pending''" "\<not> sc_master ?row" "sc_id ?row = scenario_seq w"
    by (simp_all add: new_row_def scenario_info_def)
  from c show "(scenarios w' = scenarios w \<and> scenarios_settings w' = scenarios_settings w) \<or>
      (\<exists>row. scenarios w' = scenarios w @ [row] \<and> sc_status row = ''pending'' \<and>
             \<not> sc_master row \<and>
             scenarios_settings w' = scenarios_settings w @ initial_settings (sc_id row) now)"
  proof (elim disjE)
    assume "w' = w"
    then show ?thesis by simp
  next
    assume "w' = based_world projId pl now w"
    then have "scenarios w' = scenarios w @ [?row] \<and>
      scenarios_settings w' = scenarios_settings w @ initial_settings (sc_id ?row) now"
      by (simp add: based_world_def r)
    with r show ?thesis by blast
  next
    assume "w' = started_world projId (scenario_seq w) (based_world projId pl now w)"
    then have "scenarios w' = scenarios w @ [?row] \<and>
      scenarios_settings w' = scenarios_settings w @ initial_settings (sc_id ?row) now"
      by (simp add: based_world_def started_world_def r)
    with r show ?thesis by blast
  qed
qed

text \<open>
  Claim C6. Outside test mode, when the create handler succeeds it replies the created
  scenario, a value fixed by the request and the store alone, while the job it has
  dispatched is still pending: the service runner is among the started services of the
  resulting world, the operation is started and not completed, and the completion
  signal, whatever it carries, is a later step on that world.
\<close>

theorem reply_before_completion:
  "handler_body dm projId pl now upload_now w = (Inr sc, w') \<and> DS_ENV w \<noteq> Some ''test'' \<and>
   ids_fresh w \<longrightarrow>
     handler dm projId pl now upload_now w = (ReplyScenario (new_scenario projId pl now w), w') \<and>
     so_row (new_scenario projId pl now w) \<in> set (scenarios w') \<and>
     (\<exists>d. services w' = services w @
            [\<lparr>srv_task = ''scenario-create'', srv_data = d, srv_op_id = operation_seq w\<rparr>]) \<and>
     started_after dm w' (operation_seq w) \<and> \<not> completed_after dm w' (operation_seq w) \<and>
     service_completes dm (length (services w)) signal w' =
       on_complete dm (operation_seq w) signal (w'\<lparr>services := services w\<rparr>)"
proof (intro impI)
  assume a: "handler_body dm projId pl now upload_now w = (Inr sc, w') \<and>
    DS_ENV w \<noteq> Some ''test'' \<and> ids_fresh w"
  then have b: "handler_body dm projId pl now upload_now w = (Inr sc, w')"
    and e: "DS_ENV w \<noteq> Some ''test''" and f: "ids_fresh w" by simp_all
  from b have sc: "sc = new_scenario projId pl now w" by (rule handler_body_Inr)
  from handler_body_Inr_footprint [OF b] e obtain d where
    s: "scenarios w' = scenarios w @ [new_row projId pl now w]"
    and v: "services w' = services w @
            [\<lparr>srv_task = ''scenario-create'', srv_data = d, srv_op_id = operation_seq w\<rparr>]"
    by (auto simp: footprint_def)
  have 1: "handler dm projId pl now upload_now w = (ReplyScenario (new_scenario projId pl now w), w')"
    using b sc by (simp add: handler_def)
  have 2: "so_row (new_scenario projId pl now w) \<in> set (scenarios w')"
    by (simp add: s new_scenario_def)
  have 3: "service_completes dm (length (services w)) signal w' =
       on_complete dm (operation_seq w) signal (w'\<lparr>services := services w\<rparr>)"
    by (simp add: service_completes_def v)
  from 1 2 3 v handler_body_Inr_status [OF b f]
  show "handler dm projId pl now upload_now w = (ReplyScenario (new_scenario projId pl now w), w') \<and>
     so_row (new_scenario projId pl now w) \<in> set (scenarios w') \<and>
     (\<exists>d. services w' = services w @
            [\<lparr>srv_task = ''scenario-create'', srv_data = d, srv_op_id = operation_seq w\<rparr>]) \<and>
     started_after dm w' (operation_seq w) \<and> \<not> completed_after dm w' (operation_seq w) \<and>
     service_completes dm (length (services w)) signal w' =
       on_complete dm (operation_seq w) signal (w'\<lparr>services := services w\<rparr>)"
    by blast
qed

text \<open>
  Claim C3. With \<^verbatim>\<open>DS_ENV = 'test'\<close>, \<^verbatim>\<open>createScenario\<close> (of either file) returns the
  world unchanged: no service runner is constructed or started. After a successful
  create request in test mode the operation is therefore started and not completed, and
  it stays so until somebody calls \<^verbatim>\<open>finish\<close> on it, which completes it.
\<close>

theorem test_mode_skips_dispatch:
  "(DS_ENV w = Some ''test'' \<longrightarrow>
      createScenario projId scId opId d w = w \<and>
      createScenario_offline projId scId opId source d w = w) \<and>
   (DS_ENV w = Some ''test'' \<and> ids_fresh w \<and>
    handler_body dm projId pl now upload_now w = (Inr sc, w') \<longrightarrow>
      services w' = services w \<and>
      started_after dm w' (operation_seq w) \<and> \<not> completed_after dm w' (operation_seq w) \<and>
      (\<forall>op arg. loadById dm w' (operation_seq w) = Inr op \<longrightarrow>
         completed_after dm (snd (finish op arg w')) (operation_seq w)))"
proof (intro conjI impI allI)
  assume "DS_ENV w = Some ''test''"
  then show "createScenario projId scId opId d w = w"
    and "createScenario_offline projId scId opId source d w = w"
    by (simp_all add: createScenario_def createScenario_offline_def)
next
  assume a: "DS_ENV w = Some ''test'' \<and> ids_fresh w \<and>
    handler_body dm projId pl now upload_now w = (Inr sc, w')"
  then have b: "handler_body dm projId pl now upload_now w = (Inr sc, w')"
    and e: "DS_ENV w = Some ''test''" and f: "ids_fresh w" by simp_all
  from handler_body_Inr_footprint [OF b] e show "services w' = services w"
    by (auto simp: footprint_def)
  from handler_body_Inr_status [OF b f]
  show "started_after dm w' (operation_seq w)" and "\<not> completed_after dm w' (operation_seq w)"
    by simp_all
next
  fix op arg
  assume "loadById dm w' (operation_seq w) = Inr op"
  then show "completed_after dm (snd (finish op arg w')) (operation_seq w)"
    by (rule finish_completes)
qed

lemma create_scenario_base_success:
  assumes "scenarios_insert_fault w = None"
    and "\<not> list_ex (\<lambda>r. sc_project_id r = projId \<and> sc_name r = pl_name pl) (scenarios w)"
  shows "create_scenario_base projId pl now w =
           (Inr (new_scenario projId pl now w), based_world projId pl now w)"
  using assms
  by (simp add: create_scenario_base_def insert_scenario_def scenario_info_def Let_def
      new_scenario_def new_row_def based_world_def)

lemma startOperation_success:
  assumes "operations_load_fault w = None"
    and "\<not> list_ex (\<lambda>r. opr_type r = ''scenario-create'' \<and> opr_project_id r = projId \<and>
                      opr_scenario_id r = scId) (operations w)"
    and "js_match ''not exist'' (dm NotFoundError)"
  shows "startOperation dm projId scId w =
           (Inr (started_operation projId scId w), started_world projId scId w)"
proof -
  from assms(1,2) have "load_for_start dm projId scId w =
      Inl (Error NotFoundError (dm NotFoundError) None)"
    by (simp add: load_for_start_def loadByData_none)
  from startOperation_load_error [OF this] assms(3) show ?thesis by simp
qed

lemma handler_body_success:
  assumes "validated dm projId pl w"
    and "scenarios_insert_fault w = None"
    and "\<not> list_ex (\<lambda>r. sc_project_id r = projId \<and> sc_name r = pl_name pl) (scenarios w)"
    and "operations_load_fault w = None"
    and "\<not> list_ex (\<lambda>r. opr_type r = ''scenario-create'' \<and> opr_project_id r = projId \<and>
                      opr_scenario_id r = scenario_seq w) (operations w)"
    and "js_match ''not exist'' (dm NotFoundError)"
    and "job_data pl (new_scenario projId pl now w) upload_now
           (started_world projId (scenario_seq w) (based_world projId pl now w)) = (Inr d, w3)"
  shows "handler_body dm projId pl now upload_now w =
           (Inr (new_scenario projId pl now w),
            createScenario projId (scenario_seq w) (operation_seq w) d w3)"
proof -
  let ?w1 = "based_world projId pl now w"
  have b: "create_scenario_base projId pl now w = (Inr (new_scenario projId pl now w), ?w1)"
    by (rule create_scenario_base_success [OF assms(2,3)])
  have "operations_load_fault ?w1 = None" and "operations ?w1 = operations w"
    using assms(4) by (simp_all add: based_world_def)
  with assms(5,6)
  have s: "startOperation dm projId (scenario_seq w) ?w1 =
      (Inr (started_operation projId (scenario_seq w) ?w1),
       started_world projId (scenario_seq w) ?w1)"
    by (simp add: startOperation_success)
  have i: "getId (started_operation projId (scenario_seq w) ?w1) = operation_seq w"
    by (simp add: getId_def started_operation_def based_world_def)
  show ?thesis
    by (simp add: validated_bodies [OF assms(1)] b s assms(7) i)
qed

lemma job_data_clone:
  assumes "pl_roadNetworkSource pl = ''clone''" and "pl_poiSource pl = ''clone''"
  shows "job_data pl sc upload_now w =
     (Inr [(''rnSource'', JStr ''clone''), (''poiSource'', JStr ''clone''),
           (''rnSourceScenarioId'', num_or_undefined (pl_roadNetworkSourceScenario pl)),
           (''poiSourceScenarioId'', num_or_undefined (pl_poiSourceScenario pl))], w)"
  using assms by (simp add: job_data_def assign_def Let_def)

lemma example_job_data: "job_data example_payload sc upload_now w = (Inr example_data, w)"
  by (simp add: job_data_clone example_payload_def example_data_def num_or_undefined_def)

lemma example_facts:
  "scenario_seq example_world = 2" "operation_seq example_world = 1"
  "scenario_seq test_world = 2" "operation_seq test_world = 1"
  "ids_fresh test_world" "DS_ENV test_world = Some ''test''"
  "DS_ENV example_world \<noteq> Some ''test''"
  by (simp_all add: example_world_def empty_world_def test_world_def ids_fresh_def)

lemma example_run:
  "handler_body example_messages 1 example_payload 5 6 example_world =
     (Inr (new_scenario 1 example_payload 5 example_world), example_result example_world)"
proof -
  have "handler_body example_messages 1 example_payload 5 6 example_world =
     (Inr (new_scenario 1 example_payload 5 example_world),
      createScenario 1 (scenario_seq example_world) (operation_seq example_world) example_data
        (started_world 1 (scenario_seq example_world) (based_world 1 example_payload 5 example_world)))"
    by (rule handler_body_success [OF example_validated(1) _ _ _ _ _ example_job_data])
       (simp_all add: example_world_def empty_world_def example_payload_def example_messages_def)
  then show ?thesis by (simp add: example_result_def example_facts)
qed

lemma example_test_run:
  "handler_body example_messages 1 example_payload 5 6 test_world =
     (Inr (new_scenario 1 example_payload 5 test_world), example_result test_world)"
proof -
  have v: "validated example_messages 1 example_payload test_world"
    by (simp add: validated_def check_project_def check_clone_source_def example_world_def
      empty_world_def example_payload_def test_world_def)
  have "handler_body example_messages 1 example_payload 5 6 test_world =
     (Inr (new_scenario 1 example_payload 5 test_world),
      createScenario 1 (scenario_seq test_world) (operation_seq test_world) example_data
        (started_world 1 (scenario_seq test_world) (based_world 1 example_payload 5 test_world)))"
    by (rule handler_body_success [OF v _ _ _ _ _ example_job_data])
       (simp_all add: example_world_def empty_world_def example_payload_def example_messages_def
          test_world_def)
  then show ?thesis by (simp add: example_result_def example_facts)
qed

theorem created_scenario_is_pending_witness:
  "handler_body example_messages 1 example_payload 5 6 example_world =
     (Inr (new_scenario 1 example_payload 5 example_world), example_result example_world) \<and>
   handler example_messages 1 example_payload 5 6 example_world =
     (ReplyScenario (new_scenario 1 example_payload 5 example_world), example_result example_world) \<and>
   scenarios (example_result example_world) =
     scenarios example_world @
       [\<lparr>sc_id = 2, sc_name = ''Alt'', sc_description = [], sc_status = ''pending'',
         sc_master = False, sc_project_id = 1, sc_created_at = 5, sc_updated_at = 5\<rparr>] \<and>
   scenarios_settings (example_result example_world) = initial_settings 2 5 \<and>
   handler_body example_messages 1 taken_payload 5 6 example_world =
     (Inl (Error DataConflictError ''Scenario name already in use for this project: Main'' None),
      example_world)"
proof -
  from created_scenario_is_pending
    [where dm = example_messages and projId = 1 and pl = example_payload and now = 5
       and upload_now = 6 and w = example_world
       and sc = "new_scenario 1 example_payload 5 example_world"
       and w' = "example_result example_world"] example_run
  have 1: "handler example_messages 1 example_payload 5 6 example_world =
     (ReplyScenario (new_scenario 1 example_payload 5 example_world), example_result example_world)"
    and 2: "scenarios (example_result example_world) =
      scenarios example_world @ [so_row (new_scenario 1 example_payload 5 example_world)]"
    and 3: "scenarios_settings (example_result example_world) =
      scenarios_settings example_world @
        initial_settings (sc_id (so_row (new_scenario 1 example_payload 5 example_world))) 5"
    by blast+
  have r: "so_row (new_scenario 1 example_payload 5 example_world) =
       \<lparr>sc_id = 2, sc_name = ''Alt'', sc_description = [], sc_status = ''pending'',
         sc_master = False, sc_project_id = 1, sc_created_at = 5, sc_updated_at = 5\<rparr>"
    by (simp add: new_scenario_def new_row_def scenario_info_def example_payload_def
        example_facts)
  have e: "scenarios_settings example_world = []"
    by (simp add: example_world_def empty_world_def)
  have 4: "handler_body example_messages 1 taken_payload 5 6 example_world =
     (Inl (Error DataConflictError ''Scenario name already in use for this project: Main'' None),
      example_world)"
  proof -
    have i: "insert_scenario (scenario_info 1 taken_payload 5) example_world =
           Inl (Error StorageError ''duplicate key value violates unique constraint''
                  (Some ''scenarios_project_id_name_unique''))"
      by (rule insert_scenario_taken)
         (simp_all add: example_world_def empty_world_def taken_payload_def)
    from validated_insert_error [OF example_validated(2) i] show ?thesis
      by (simp add: insert_catch_def taken_payload_def)
  qed
  from 1 2 3 4 r e example_run show ?thesis by (simp add: example_facts)
qed

theorem reply_before_completion_witness:
  "handler_body example_messages 1 example_payload 5 6 example_world =
     (Inr (new_scenario 1 example_payload 5 example_world), example_result example_world) \<and>
   DS_ENV example_world \<noteq> Some ''test'' \<and> ids_fresh example_world \<and>
   handler example_messages 1 example_payload 5 6 example_world =
     (ReplyScenario (new_scenario 1 example_payload 5 example_world), example_result example_world) \<and>
   started_after example_messages (example_result example_world) 1 \<and>
   \<not> completed_after example_messages (example_result example_world) 1 \<and>
   service_completes example_messages 0 (Some disk_full) (example_result example_world) =
     on_complete example_messages 1 (Some disk_full)
       ((example_result example_world)\<lparr>services := []\<rparr>)"
proof -
  have s: "services example_world = []" by (simp add: example_world_def empty_world_def)
  from reply_before_completion
    [where dm = example_messages and projId = 1 and pl = example_payload and now = 5
       and upload_now = 6 and w = example_world
       and sc = "new_scenario 1 example_payload 5 example_world"
       and w' = "example_result example_world" and signal = "Some disk_full"]
    example_run example_facts(7) example_world_fresh
  show ?thesis by (simp add: example_facts s)
qed

theorem test_mode_skips_dispatch_witness:
  "DS_ENV test_world = Some ''test'' \<and> ids_fresh test_world \<and>
   createScenario 1 2 1 example_data test_world = test_world \<and>
   handler_body example_messages 1 example_payload 5 6 test_world =
     (Inr (new_scenario 1 example_payload 5 test_world), example_result test_world) \<and>
   services (example_result test_world) = [] \<and>
   started_after example_messages (example_result test_world) 1 \<and>
   \<not> completed_after example_messages (example_result test_world) 1"
proof -
  have s: "services test_world = []"
    by (simp add: example_world_def empty_world_def test_world_def)
  from test_mode_skips_dispatch
    [where dm = example_messages and projId = 1 and pl = example_payload and now = 5
       and upload_now = 6 and w = test_world
       and sc = "new_scenario 1 example_payload 5 test_world"
       and w' = "example_result test_world" and scId = 2 and opId = 1 and d = example_data]
    example_test_run example_facts(5,6)
  show ?thesis by (simp add: example_facts s)
qed

theorem validation_fails_first_witness:
  "filter (\<lambda>p. proj_id p = 7) (projects example_world) = [] \<and>
   handler_body example_messages 7 example_payload 5 6 example_world =
     (Inl (Error ProjectNotFoundError ''Project not found'' None), example_world) \<and>
   footprint (snd (handler example_messages 7 example_payload 5 6 example_world)) =
     footprint example_world \<and>
   filter (\<lambda>p. proj_id p = 1) (projects pending_world) =
     [\<lparr>proj_id = 1, proj_status = ''pending''\<rparr>] \<and>
   handler_body example_messages 1 example_payload 5 6 pending_world =
     (Inl (Error DataConflictError ''Project setup not completed'' None), pending_world) \<and>
   filter (\<lambda>s. Some (sc_id s) = pl_roadNetworkSourceScenario missing_source_payload \<and>
               sc_project_id s = 1) (scenarios example_world) = [] \<and>
   handler_body example_messages 1 missing_source_payload 5 6 example_world =
     (Inl (Error ScenarioNotFoundError ''Source scenario for cloning not found'' None),
      example_world) \<and>
   find (\<lambda>s. sc_id s = 1 \<and> sc_project_id s = 1) (scenarios example_world) = Some main_row \<and>
   duplicate example_messages 1 1 5 6 example_world =
     handler example_messages 1 (duplicate_payload example_world 1 1 main_row) 5 6 example_world \<and>
   find (\<lambda>s. sc_id s = 9 \<and> sc_project_id s = 1) (scenarios example_world) = None \<and>
   duplicate example_messages 1 9 5 6 example_world =
     (BoomForError (Error ScenarioNotFoundError ''Scenario not found'' None), example_world)"
proof -
  have h1: "filter (\<lambda>p. proj_id p = 7) (projects example_world) = []"
    by (simp add: example_world_def empty_world_def)
  have h2: "filter (\<lambda>p. proj_id p = 1) (projects pending_world) =
     [\<lparr>proj_id = 1, proj_status = ''pending''\<rparr>]"
    by (simp add: pending_world_def example_world_def empty_world_def)
  have h3: "filter (\<lambda>p. proj_id p = 1) (projects example_world) =
     [\<lparr>proj_id = 1, proj_status = ''active''\<rparr>]"
    by (simp add: example_world_def empty_world_def)
  have h4: "pl_roadNetworkSource missing_source_payload = ''clone''"
    by (simp add: missing_source_payload_def example_payload_def)
  have h5: "filter (\<lambda>s. Some (sc_id s) = pl_roadNetworkSourceScenario missing_source_payload \<and>
               sc_project_id s = 1) (scenarios example_world) = []"
    by (simp add: missing_source_payload_def example_world_def empty_world_def)
  have h6: "find (\<lambda>s. sc_id s = 1 \<and> sc_project_id s = 1) (scenarios example_world) = Some main_row"
    by (simp add: example_world_def empty_world_def main_row_def)
  have h7: "find (\<lambda>s. sc_id s = 9 \<and> sc_project_id s = 1) (scenarios example_world) = None"
    by (simp add: example_world_def empty_world_def)
  have m: "example_messages ProjectNotFoundError = ''Project not found''"
    "example_messages ScenarioNotFoundError = ''Scenario not found''"
    by (simp_all add: example_messages_def)
  from validation_fails_first
    [where dm = example_messages and projId = 7 and pl = example_payload and now = 5
       and upload_now = 6 and w = example_world
       and err = "Error ProjectNotFoundError ''Project not found'' None"] h1 m
  have 1: "handler_body example_messages 7 example_payload 5 6 example_world =
     (Inl (Error ProjectNotFoundError ''Project not found'' None), example_world)"
    and 2: "footprint (snd (handler example_messages 7 example_payload 5 6 example_world)) =
     footprint example_world"
    by simp_all
  from validation_fails_first
    [where dm = example_messages and projId = 1 and pl = example_payload and now = 5
       and upload_now = 6 and w = pending_world
       and p = "\<lparr>proj_id = 1, proj_status = ''pending''\<rparr>" and ps = "[]"] h2
  have 3: "handler_body example_messages 1 example_payload 5 6 pending_world =
     (Inl (Error DataConflictError ''Project setup not completed'' None), pending_world)"
    by simp
  from validation_fails_first
    [where dm = example_messages and projId = 1 and pl = missing_source_payload and now = 5
       and upload_now = 6 and w = example_world
       and p = "\<lparr>proj_id = 1, proj_status = ''active''\<rparr>" and ps = "[]"] h3 h4 h5
  have 4: "handler_body example_messages 1 missing_source_payload 5 6 example_world =
     (Inl (Error ScenarioNotFoundError ''Source scenario for cloning not found'' None),
      example_world)"
    by simp
  from validation_fails_first
    [where dm = example_messages and projId = 1 and scId = 1 and now = 5
       and upload_now = 6 and w = example_world and src = main_row] h6
  have 5: "duplicate example_messages 1 1 5 6 example_world =
     handler example_messages 1 (duplicate_payload example_world 1 1 main_row) 5 6 example_world"
    by simp
  from validation_fails_first
    [where dm = example_messages and projId = 1 and scId = 9 and now = 5
       and upload_now = 6 and w = example_world] h7 m
  have 6: "duplicate example_messages 1 9 5 6 example_world =
     (BoomForError (Error ScenarioNotFoundError ''Scenario not found'' None), example_world)"
    by simp
  from 1 2 3 4 5 6 h1 h2 h5 h6 h7 show ?thesis by simp
qed

section \<open>Properties of \<^verbatim>\<open>findName\<close> and the duplicate route\<close>

lemma name_taken_iff:
  "name_taken w projId n \<longleftrightarrow> (\<exists>s\<in>set (scenarios w). sc_project_id s = projId \<and> sc_name s = n)"
  by (auto simp: name_taken_def find_None_iff)

lemma findName_fn_first_free:
  "\<exists>n\<ge>no. findName_fn w projId name no = fmt_name name n \<and>
          \<not> name_taken w projId (fmt_name name n) \<and>
          (\<forall>m. no \<le> m \<and> m < n \<longrightarrow> name_taken w projId (fmt_name name m))"
proof (induction w projId name no rule: findName_fn.induct)
  case (1 w projId name no)
  show ?case
  proof (cases "name_taken w projId (fmt_name name no)")
    case False
    then have "findName_fn w projId name no = fmt_name name no"
      by (subst findName_fn.simps) simp
    with False show ?thesis by auto
  next
    case True
    then have e: "findName_fn w projId name no = findName_fn w projId name (Suc no)"
      by (subst findName_fn.simps) simp
    from "1.IH" [OF refl True] obtain n where n: "Suc no \<le> n"
      "findName_fn w projId name (Suc no) = fmt_name name n"
      "\<not> name_taken w projId (fmt_name name n)"
      "\<forall>m. Suc no \<le> m \<and> m < n \<longrightarrow> name_taken w projId (fmt_name name m)"
      by blast
    have "\<forall>m. no \<le> m \<and> m < n \<longrightarrow> name_taken w projId (fmt_name name m)"
    proof (intro allI impI)
      fix m assume m: "no \<le> m \<and> m < n"
      show "name_taken w projId (fmt_name name m)"
      proof (cases "m = no")
        case True with \<open>name_taken w projId (fmt_name name no)\<close> show ?thesis by simp
      next
        case False with m n(4) show ?thesis by simp
      qed
    qed
    with n e show ?thesis by (intro exI [of _ n]) simp
  qed
qed

lemma handler_reply_name:
  assumes "handler dm projId pl now upload_now w = (ReplyScenario sc, w')"
  shows "sc_name (so_row sc) = pl_name pl"
proof -
  from assms obtain w1 where "handler_body dm projId pl now upload_now w = (Inr sc, w1)"
    by (auto simp: handler_def Let_def split: sum.splits prod.splits if_splits)
  then have "sc = new_scenario projId pl now w" by (rule handler_body_Inr)
  then show ?thesis by (simp add: new_scenario_def new_row_def scenario_info_def)
qed

lemma crowded_find:
  "find (\<lambda>s. sc_id s = 1 \<and> sc_project_id s = 1) (scenarios crowded_world) = Some main_row"
  by (simp add: crowded_world_def example_world_def empty_world_def main_row_def)

lemma crowded_name: "findName crowded_world 1 ''Main'' = ''Main (3)''"
  by (simp add: findName_def findName_fn.simps fmt_name_def name_taken_def show_nat.simps
      digit_def crowded_world_def example_world_def empty_world_def)

lemma handler_scenarios:
  "scenarios (snd (handler dm projId pl now upload_now w)) =
     scenarios (snd (handler_body dm projId pl now upload_now w))"
  by (cases "handler_body dm projId pl now upload_now w")
     (simp add: handler_def Let_def split: sum.splits option.splits)

lemma handler_body_after_base:
  assumes "validated dm projId pl w"
    and "create_scenario_base projId pl now w = (Inr sc, w1)"
  shows "scenarios (snd (handler_body dm projId pl now upload_now w)) = scenarios w1"
proof -
  obtain r w' where h: "handler_body dm projId pl now upload_now w = (r, w')"
    by (cases "handler_body dm projId pl now upload_now w")
  note b = create_scenario_base_Inr [OF assms(2)]
  have "scenarios w' = scenarios w1"
  proof (cases r)
    case (Inl err)
    with h have c: "w' = w \<or> w' = based_world projId pl now w \<or>
         w' = started_world projId (scenario_seq w) (based_world projId pl now w)"
      by (simp add: handler_body_Inl)
    have "w' \<noteq> w \<or> scenarios w' = scenarios w1"
    proof (cases "w' = w")
      case True
      obtain r2 w2 where s: "startOperation dm projId (sc_id (so_row sc)) w1 = (r2, w2)"
        by (cases "startOperation dm projId (sc_id (so_row sc)) w1")
      from startOperation_cases [of dm projId "sc_id (so_row sc)" w1] s
      have w2: "w2 = w1 \<or> w2 = started_world projId (sc_id (so_row sc)) w1" by auto
      show ?thesis
      proof (cases r2)
        case (Inl e2)
        with h s assms(2) have "w' = w2"
          by (simp add: validated_bodies [OF assms(1)])
        with w2 show ?thesis by (auto simp: started_world_def)
      next
        case (Inr op)
        obtain r3 w3 where j: "job_data pl sc upload_now w2 = (r3, w3)"
          by (cases "job_data pl sc upload_now w2")
        from job_data_frame(1) [OF j] have f: "scenarios w3 = scenarios w2"
          by (simp add: footprint_def)
        from h s Inr j assms(2) have "scenarios w' = scenarios w3"
          by (cases r3) (auto simp: validated_bodies [OF assms(1)] createScenario_def)
        with f w2 show ?thesis by (auto simp: started_world_def)
      qed
    next
      case False
      then show ?thesis by simp
    qed
    with c b show ?thesis by (auto simp: started_world_def)
  next
    case (Inr sc')
    with h handler_body_Inr_footprint [of dm projId pl now upload_now w sc' w']
    have "scenarios w' = scenarios w @ [new_row projId pl now w]"
      by (auto simp: footprint_def)
    with b show ?thesis by (simp add: based_world_def)
  qed
  with h show ?thesis by simp
qed

lemma duplicate_payload_fields:
  "pl_roadNetworkSource (duplicate_payload w projId scId src) = ''clone''"
  "pl_roadNetworkSourceScenario (duplicate_payload w projId scId src) = Some scId"
  "pl_poiSource (duplicate_payload w projId scId src) = ''clone''"
  "pl_description (duplicate_payload w projId scId src) = Some (sc_description src)"
  "pl_roadNetworkFile (duplicate_payload w projId scId src) = None"
  by (simp_all add: duplicate_payload_def)

lemma duplicate_validated:
  assumes "find (\<lambda>s. sc_id s = scId \<and> sc_project_id s = projId) (scenarios w) = Some src"
    and "check_project dm projId w = Inr ()"
  shows "validated dm projId (duplicate_payload w projId scId src) w"
proof -
  from assms(1) have "src \<in> set (scenarios w)" "sc_id src = scId" "sc_project_id src = projId"
    by (auto simp: find_Some_iff)
  then have "src \<in> set (filter (\<lambda>s. Some (sc_id s) = Some scId \<and> sc_project_id s = projId)
      (scenarios w))" by simp
  then have "filter (\<lambda>s. Some (sc_id s) = Some scId \<and> sc_project_id s = projId)
      (scenarios w) \<noteq> []" by (metis empty_iff list.set(1))
  then show ?thesis
    using assms(2)
    by (simp add: validated_def check_clone_source_def duplicate_payload_fields
        split: list.splits)
qed

lemma duplicate_name_free:
  "\<not> list_ex (\<lambda>r. sc_project_id r = projId \<and>
       sc_name r = pl_name (duplicate_payload w projId scId src)) (scenarios w)"
proof -
  from findName_fn_first_free [of 2 w projId "sc_name src"]
  have "\<not> name_taken w projId (findName w projId (sc_name src))"
    by (auto simp: findName_def)
  then show ?thesis
    by (simp add: name_taken_iff list_ex_iff duplicate_payload_def)
qed

lemma duplicate_new_row:
  "new_row projId (duplicate_payload w projId scId src) now w = copied_row w projId scId src now"
  by (simp add: new_row_def scenario_info_def copied_row_def duplicate_payload_fields)

text \<open>
  Claim C9. The duplicate route fails with \<^verbatim>\<open>ScenarioNotFoundError\<close> when the project
  has no scenario of the given id. Otherwise it runs the create handler with the name
  \<^verbatim>\<open><source name> (n)\<close>, where \<open>n\<close> is the smallest number from 2 on for which no
  scenario of the project has that exact name. When the project is set up and the insert
  is not refused by the store, the copy is inserted under that name, pending and with
  the description of the source; when the operation can be started as well, the copy is
  what the route replies.
\<close>

theorem duplicate_name_is_first_free:
  "(find (\<lambda>s. sc_id s = scId \<and> sc_project_id s = projId) (scenarios w) = None \<longrightarrow>
      duplicate dm projId scId now upload_now w =
        (BoomForError (Error ScenarioNotFoundError (dm ScenarioNotFoundError) None), w)) \<and>
   (find (\<lambda>s. sc_id s = scId \<and> sc_project_id s = projId) (scenarios w) = Some src \<longrightarrow>
      duplicate dm projId scId now upload_now w =
        handler dm projId (duplicate_payload w projId scId src) now upload_now w \<and>
      (\<exists>n\<ge>2.
         pl_name (duplicate_payload w projId scId src) =
           sc_name src @ '' ('' @ show_nat n @ '')'' \<and>
         \<not> (\<exists>s\<in>set (scenarios w). sc_project_id s = projId \<and>
               sc_name s = sc_name src @ '' ('' @ show_nat n @ '')'') \<and>
         (\<forall>m. 2 \<le> m \<and> m < n \<longrightarrow>
            (\<exists>s\<in>set (scenarios w). sc_project_id s = projId \<and>
               sc_name s = sc_name src @ '' ('' @ show_nat m @ '')''))) \<and>
      (\<forall>sc w'. duplicate dm projId scId now upload_now w = (ReplyScenario sc, w') \<longrightarrow>
         sc_name (so_row sc) = pl_name (duplicate_payload w projId scId src))) \<and>
   (find (\<lambda>s. sc_id s = scId \<and> sc_project_id s = projId) (scenarios w) = Some src \<and>
    filter (\<lambda>p. proj_id p = projId) (projects w) = p # ps \<and> proj_status p \<noteq> ''pending'' \<and>
    scenarios_insert_fault w = None \<longrightarrow>
      scenarios (snd (duplicate dm projId scId now upload_now w)) =
        scenarios w @
          [\<lparr>sc_id = scenario_seq w,
            sc_name = pl_name (duplicate_payload w projId scId src),
            sc_description = sc_description src,
            sc_status = ''pending'', sc_master = False, sc_project_id = projId,
            sc_created_at = now, sc_updated_at = now\<rparr>]) \<and>
   (find (\<lambda>s. sc_id s = scId \<and> sc_project_id s = projId) (scenarios w) = Some src \<and>
    filter (\<lambda>p. proj_id p = projId) (projects w) = p # ps \<and> proj_status p \<noteq> ''pending'' \<and>
    scenarios_insert_fault w = None \<and> operations_load_fault w = None \<and>
    \<not> list_ex (\<lambda>r. opr_type r = ''scenario-create'' \<and> opr_project_id r = projId \<and>
                   opr_scenario_id r = scenario_seq w) (operations w) \<and>
    js_match ''not exist'' (dm NotFoundError) \<longrightarrow>
      fst (duplicate dm projId scId now upload_now w) =
        ReplyScenario
          \<lparr>so_row =
             \<lparr>sc_id = scenario_seq w,
              sc_name = pl_name (duplicate_payload w projId scId src),
              sc_description = sc_description src,
              sc_status = ''pending'', sc_master = False, sc_project_id = projId,
              sc_created_at = now, sc_updated_at = now\<rparr>,
            so_data = Some [(''res_gen_at'', JNum 0), (''rn_updated_at'', JNum 0)],
            so_admin_areas = Some [],
            so_roadNetworkUpload = None\<rparr>)"
proof (intro conjI impI allI)
  assume "find (\<lambda>s. sc_id s = scId \<and> sc_project_id s = projId) (scenarios w) = None"
  then show "duplicate dm projId scId now upload_now w =
        (BoomForError (Error ScenarioNotFoundError (dm ScenarioNotFoundError) None), w)"
    by (simp add: duplicate_def)
next
  assume "find (\<lambda>s. sc_id s = scId \<and> sc_project_id s = projId) (scenarios w) = Some src"
  then show "duplicate dm projId scId now upload_now w =
        handler dm projId (duplicate_payload w projId scId src) now upload_now w"
    by (simp add: duplicate_def)
next
  from findName_fn_first_free [of 2 w projId "sc_name src"]
  show "\<exists>n\<ge>2.
         pl_name (duplicate_payload w projId scId src) =
           sc_name src @ '' ('' @ show_nat n @ '')'' \<and>
         \<not> (\<exists>s\<in>set (scenarios w). sc_project_id s = projId \<and>
               sc_name s = sc_name src @ '' ('' @ show_nat n @ '')'') \<and>
         (\<forall>m. 2 \<le> m \<and> m < n \<longrightarrow>
            (\<exists>s\<in>set (scenarios w). sc_project_id s = projId \<and>
               sc_name s = sc_name src @ '' ('' @ show_nat m @ '')''))"
    by (simp add: duplicate_payload_def findName_def name_taken_iff fmt_name_def)
next
  fix sc w'
  assume "find (\<lambda>s. sc_id s = scId \<and> sc_project_id s = projId) (scenarios w) = Some src"
    and "duplicate dm projId scId now upload_now w = (ReplyScenario sc, w')"
  then have "handler dm projId (duplicate_payload w projId scId src) now upload_now w =
      (ReplyScenario sc, w')"
    by (simp add: duplicate_def)
  then show "sc_name (so_row sc) = pl_name (duplicate_payload w projId scId src)"
    by (rule handler_reply_name)
next
  let ?pl = "duplicate_payload w projId scId src"
  assume a: "find (\<lambda>s. sc_id s = scId \<and> sc_project_id s = projId) (scenarios w) = Some src \<and>
    filter (\<lambda>p. proj_id p = projId) (projects w) = p # ps \<and> proj_status p \<noteq> ''pending'' \<and>
    scenarios_insert_fault w = None"
  then have f: "find (\<lambda>s. sc_id s = scId \<and> sc_project_id s = projId) (scenarios w) = Some src"
    and c: "check_project dm projId w = Inr ()" and i: "scenarios_insert_fault w = None"
    by (simp_all add: check_project_ready)
  have v: "validated dm projId ?pl w" by (rule duplicate_validated [OF f c])
  have b: "create_scenario_base projId ?pl now w =
      (Inr (new_scenario projId ?pl now w), based_world projId ?pl now w)"
    by (rule create_scenario_base_success [OF i duplicate_name_free])
  have "scenarios (snd (handler dm projId ?pl now upload_now w)) =
      scenarios (based_world projId ?pl now w)"
    by (simp add: handler_scenarios handler_body_after_base [OF v b])
  then show "scenarios (snd (duplicate dm projId scId now upload_now w)) =
        scenarios w @
          [\<lparr>sc_id = scenario_seq w, sc_name = pl_name ?pl,
            sc_description = sc_description src,
            sc_status = ''pending'', sc_master = False, sc_project_id = projId,
            sc_created_at = now, sc_updated_at = now\<rparr>]"
    using f by (simp add: duplicate_def based_world_def duplicate_new_row copied_row_def)
next
  let ?pl = "duplicate_payload w projId scId src"
  assume a: "find (\<lambda>s. sc_id s = scId \<and> sc_project_id s = projId) (scenarios w) = Some src \<and>
    filter (\<lambda>p. proj_id p = projId) (projects w) = p # ps \<and> proj_status p \<noteq> ''pending'' \<and>
    scenarios_insert_fault w = None \<and> operations_load_fault w = None \<and>
    \<not> list_ex (\<lambda>r. opr_type r = ''scenario-create'' \<and> opr_project_id r = projId \<and>
                   opr_scenario_id r = scenario_seq w) (operations w) \<and>
    js_match ''not exist'' (dm NotFoundError)"
  then have f: "find (\<lambda>s. sc_id s = scId \<and> sc_project_id s = projId) (scenarios w) = Some src"
    and c: "check_project dm projId w = Inr ()" and i: "scenarios_insert_fault w = None"
    and l: "operations_load_fault w = None"
    and n: "\<not> list_ex (\<lambda>r. opr_type r = ''scenario-create'' \<and> opr_project_id r = projId \<and>
                   opr_scenario_id r = scenario_seq w) (operations w)"
    and m: "js_match ''not exist'' (dm NotFoundError)"
    by (simp_all add: check_project_ready)
  have v: "validated dm projId ?pl w" by (rule duplicate_validated [OF f c])
  have j: "job_data ?pl (new_scenario projId ?pl now w) upload_now
      (started_world projId (scenario_seq w) (based_world projId ?pl now w)) =
     (Inr [(''rnSource'', JStr ''clone''), (''poiSource'', JStr ''clone''),
           (''rnSourceScenarioId'', num_or_undefined (pl_roadNetworkSourceScenario ?pl)),
           (''poiSourceScenarioId'', num_or_undefined (pl_poiSourceScenario ?pl))],
      started_world projId (scenario_seq w) (based_world projId ?pl now w))"
    by (rule job_data_clone) (simp_all add: duplicate_payload_fields)
  from handler_body_success [OF v i duplicate_name_free l n m j]
  have "fst (handler dm projId ?pl now upload_now w) =
      ReplyScenario (new_scenario projId ?pl now w)"
    by (simp add: handler_def)
  then show "fst (duplicate dm projId scId now upload_now w) =
        ReplyScenario
          \<lparr>so_row =
             \<lparr>sc_id = scenario_seq w, sc_name = pl_name ?pl,
              sc_description = sc_description src,
              sc_status = ''pending'', sc_master = False, sc_project_id = projId,
              sc_created_at = now, sc_updated_at = now\<rparr>,
            so_data = Some [(''res_gen_at'', JNum 0), (''rn_updated_at'', JNum 0)],
            so_admin_areas = Some [],
            so_roadNetworkUpload = None\<rparr>"
    using f by (simp add: duplicate_def new_scenario_def duplicate_new_row copied_row_def)
qed

theorem duplicate_name_is_first_free_witness:
  "find (\<lambda>s. sc_id s = 1 \<and> sc_project_id s = 1) (scenarios crowded_world) = Some main_row \<and>
   pl_name (duplicate_payload crowded_world 1 1 main_row) = ''Main (3)'' \<and>
   duplicate example_messages 1 1 5 6 crowded_world =
     handler example_messages 1 (duplicate_payload crowded_world 1 1 main_row) 5 6 crowded_world \<and>
   scenarios (snd (duplicate example_messages 1 1 5 6 crowded_world)) =
     scenarios crowded_world @ [crowded_copy] \<and>
   fst (duplicate example_messages 1 1 5 6 crowded_world) =
     ReplyScenario
       \<lparr>so_row = crowded_copy,
        so_data = Some [(''res_gen_at'', JNum 0), (''rn_updated_at'', JNum 0)],
        so_admin_areas = Some [], so_roadNetworkUpload = None\<rparr> \<and>
   find (\<lambda>s. sc_id s = 9 \<and> sc_project_id s = 1) (scenarios crowded_world) = None \<and>
   duplicate example_messages 1 9 5 6 crowded_world =
     (BoomForError (Error ScenarioNotFoundError ''Scenario not found'' None), crowded_world)"
proof -
  have n: "find (\<lambda>s. sc_id s = 9 \<and> sc_project_id s = 1) (scenarios crowded_world) = None"
    by (simp add: crowded_world_def example_world_def empty_world_def)
  have p: "pl_name (duplicate_payload crowded_world 1 1 main_row) = ''Main (3)''"
    using crowded_name by (simp add: duplicate_payload_def main_row_def)
  have m: "example_messages ScenarioNotFoundError = ''Scenario not found''"
    "js_match ''not exist'' (example_messages NotFoundError)"
    by (simp_all add: example_messages_def)
  have q: "filter (\<lambda>p. proj_id p = 1) (projects crowded_world) =
      [\<lparr>proj_id = 1, proj_status = ''active''\<rparr>]"
    "scenarios_insert_fault crowded_world = None" "operations_load_fault crowded_world = None"
    "operations crowded_world = []" "scenario_seq crowded_world = 3"
    by (simp_all add: crowded_world_def example_world_def empty_world_def)
  have d: "sc_description main_row = ''Ref''" by (simp add: main_row_def)
  note t = duplicate_name_is_first_free
    [where dm = example_messages and projId = 1 and scId = 1 and now = 5
       and upload_now = 6 and w = crowded_world and src = main_row
       and p = "\<lparr>proj_id = 1, proj_status = ''active''\<rparr>" and ps = "[]"]
  from t crowded_find
  have 1: "duplicate example_messages 1 1 5 6 crowded_world =
     handler example_messages 1 (duplicate_payload crowded_world 1 1 main_row) 5 6 crowded_world"
    by blast
  have s: "proj_status \<lparr>proj_id = 1, proj_status = ''active''\<rparr> \<noteq> ''pending''" by simp
  from t [THEN conjunct2, THEN conjunct2, THEN conjunct1] crowded_find q s
  have 3: "scenarios (snd (duplicate example_messages 1 1 5 6 crowded_world)) =
     scenarios crowded_world @ [crowded_copy]"
    by (simp add: p d crowded_copy_def)
  from t [THEN conjunct2, THEN conjunct2, THEN conjunct2] crowded_find q s m(2)
  have 4: "fst (duplicate example_messages 1 1 5 6 crowded_world) =
     ReplyScenario
       \<lparr>so_row = crowded_copy,
        so_data = Some [(''res_gen_at'', JNum 0), (''rn_updated_at'', JNum 0)],
        so_admin_areas = Some [], so_roadNetworkUpload = None\<rparr>"
    by (simp add: p d crowded_copy_def)
  from duplicate_name_is_first_free
    [where dm = example_messages and projId = 1 and scId = 9 and now = 5
       and upload_now = 6 and w = crowded_world] n m(1)
  have 2: "duplicate example_messages 1 9 5 6 crowded_world =
     (BoomForError (Error ScenarioNotFoundError ''Scenario not found'' None), crowded_world)"
    by simp
  from 1 2 3 4 n p crowded_find show ?thesis by simp
qed

section \<open>The log of an operation along the steps of the system\<close>














































end
